theory Spec2Isabelle
  imports Complex_Main "HOL-Library.Finite_Map"
begin

section \<open>JavaScript values\<close>

text \<open>
  The program works on values parsed from JSON and on the numbers and objects it builds
  from them. A Number is an IEEE 754 double: \<open>Fin q\<close> is the finite double whose exact
  value is the rational \<open>q\<close> (\<open>Fin 0\<close> is \<open>+0\<close>), \<open>NegZero\<close> is \<open>-0\<close>. Strings are lists of
  8-bit characters (the Latin-1 code units); an object is a finite map from property
  names to values, \<open>Undefined\<close> is the value of a missing property.
\<close>

datatype number = NaN | PosInf | NegInf | NegZero | Fin rat

datatype jsval =
    Undefined
  | Null
  | Bool bool
  | Num number
  | Str string
  | Arr "jsval list"
  | Obj "(string, jsval) fmap"

text \<open>The built-in errors the language raises; the classes of \<open>types.ts\<close> and of axios.\<close>

datatype message = Text string | TypeErrorText | SyntaxErrorText | RangeErrorText

datatype exn =
    TypeError
  | SyntaxError
  | RangeError
  | ValidationCloudError message "int option" jsval
  | AxiosError string "(int \<times> jsval) option"
  | OtherError string
  | NonError jsval

definition andThen :: "exn + 'a \<Rightarrow> ('a \<Rightarrow> exn + 'b) \<Rightarrow> exn + 'b" where
  "andThen m f = (case m of Inl e \<Rightarrow> Inl e | Inr x \<Rightarrow> f x)"

fun traverse :: "('a \<Rightarrow> exn + 'b) \<Rightarrow> 'a list \<Rightarrow> exn + 'b list" where
  "traverse f [] = Inr []"
| "traverse f (x # xs) =
     andThen (f x) (\<lambda>y. andThen (traverse f xs) (\<lambda>ys. Inr (y # ys)))"

text \<open>\<open>!v\<close> is \<open>\<not> truthy v\<close>.\<close>

fun truthy :: "jsval \<Rightarrow> bool" where
  "truthy Undefined = False"
| "truthy Null = False"
| "truthy (Bool b) = b"
| "truthy (Num n) = (n \<noteq> NaN \<and> n \<noteq> Fin 0 \<and> n \<noteq> NegZero)"
| "truthy (Str s) = (s \<noteq> [])"
| "truthy (Arr xs) = True"
| "truthy (Obj m) = True"

fun typeof :: "jsval \<Rightarrow> string" where
  "typeof Undefined = ''undefined''"
| "typeof Null = ''object''"
| "typeof (Bool b) = ''boolean''"
| "typeof (Num n) = ''number''"
| "typeof (Str s) = ''string''"
| "typeof (Arr xs) = ''object''"
| "typeof (Obj m) = ''object''"

subsection \<open>Integers and their digits\<close>

function decimalDigits :: "int \<Rightarrow> string" where
  "decimalDigits n =
     (if n < 10 then [''0123456789'' ! nat n]
      else decimalDigits (n div 10) @ [''0123456789'' ! nat (n mod 10)])"
  by pat_completeness auto
termination
proof (relation "measure nat")
  show "wf (measure nat)" by simp
next
  fix n :: int
  assume "\<not> n < 10"
  then have "n div 10 < n" and "0 < n" by simp_all
  then show "(n div 10, n) \<in> measure nat" by simp
qed

declare decimalDigits.simps [simp del]

text \<open>\<open>BigInt.prototype.toString()\<close>, radix 10.\<close>

definition bigIntToString :: "int \<Rightarrow> string" where
  "bigIntToString n = (if n < 0 then ''-'' @ decimalDigits (- n) else decimalDigits n)"

text \<open>The value of a digit character in radixes up to 16.\<close>

definition digitValue :: "char \<Rightarrow> int option" where
  "digitValue c =
     (let n = of_char c :: int in
      if 48 \<le> n \<and> n \<le> 57 then Some (n - 48)
      else if 97 \<le> n \<and> n \<le> 102 then Some (n - 87)
      else if 65 \<le> n \<and> n \<le> 70 then Some (n - 55)
      else None)"

definition isDigit :: "int \<Rightarrow> char \<Rightarrow> bool" where
  "isDigit radix c = (case digitValue c of None \<Rightarrow> False | Some d \<Rightarrow> d < radix)"

definition digitsValue :: "int \<Rightarrow> string \<Rightarrow> int" where
  "digitsValue radix ds = foldl (\<lambda>acc c. acc * radix + the (digitValue c)) 0 ds"

text \<open>White space and line terminators (\<open>StrWhiteSpaceChar\<close>) among the 8-bit characters.\<close>

definition isStrWhiteSpaceChar :: "char \<Rightarrow> bool" where
  "isStrWhiteSpaceChar c = (of_char c \<in> {9, 10, 11, 12, 13, 32, 160 :: int})"

definition trimString :: "string \<Rightarrow> string" where
  "trimString s = rev (dropWhile isStrWhiteSpaceChar (rev (dropWhile isStrWhiteSpaceChar s)))"

text \<open>
  \<open>StringToBigInt\<close>: the grammar \<open>StringIntegerLiteral\<close>. An empty or blank string is
  \<open>0n\<close>; a radix prefix takes no sign; \<open>None\<close> is a string that does not parse.
\<close>

definition allDigits :: "int \<Rightarrow> string \<Rightarrow> int option" where
  "allDigits radix ds =
     (if ds \<noteq> [] \<and> list_all (isDigit radix) ds then Some (digitsValue radix ds) else None)"

definition StringToBigInt :: "string \<Rightarrow> int option" where
  "StringToBigInt str =
     (let t = trimString str in
      if t = [] then Some 0
      else if take 2 t = ''0x'' \<or> take 2 t = ''0X'' then allDigits 16 (drop 2 t)
      else if take 2 t = ''0o'' \<or> take 2 t = ''0O'' then allDigits 8 (drop 2 t)
      else if take 2 t = ''0b'' \<or> take 2 t = ''0B'' then allDigits 2 (drop 2 t)
      else if hd t = CHR ''-'' then map_option uminus (allDigits 10 (tl t))
      else if hd t = CHR ''+'' then allDigits 10 (tl t)
      else allDigits 10 t)"

subsection \<open>Doubles\<close>

definition pow2 :: "int \<Rightarrow> rat" where
  "pow2 e = (if 0 \<le> e then 2 ^ nat e else 1 / 2 ^ nat (- e))"

definition pow10 :: "int \<Rightarrow> rat" where
  "pow10 e = (if 0 \<le> e then 10 ^ nat e else 1 / 10 ^ nat (- e))"

text \<open>For a base \<open>b \<ge> 2\<close> and \<open>q > 0\<close>: the \<open>e\<close> with \<open>b^e \<le> q < b^(e+1)\<close>.\<close>

function floorLog :: "int \<Rightarrow> rat \<Rightarrow> int" where
  "floorLog b q =
     (if b < 2 \<or> q \<le> 0 then 0
      else if of_int b \<le> q then floorLog b (q / of_int b) + 1
      else if q < 1 then floorLog b (q * of_int b) - 1
      else 0)"
  by pat_completeness auto
termination
proof (relation "measures [\<lambda>(b, q). if q < 1 then 1 else 0,
                           \<lambda>(b, q). if q < 1 then nat \<lceil>1 / q\<rceil> else nat \<lfloor>q\<rfloor>]")
  show "wf (measures [\<lambda>(b::int, q::rat). if q < 1 then 1 else 0,
                      \<lambda>(b, q). if q < 1 then nat \<lceil>1 / q\<rceil> else nat \<lfloor>q\<rfloor>])"
    by simp
next
  fix b :: int and q :: rat
  assume a: "\<not> (b < 2 \<or> q \<le> 0)" and b: "of_int b \<le> q"
  have b2: "(2::rat) \<le> of_int b" using a by simp
  have q1: "1 \<le> q / of_int b" using a b by simp
  have "q / of_int b \<le> q / 2" using a b2 by (intro divide_left_mono) auto
  also have "\<dots> \<le> q - 1" using b b2 by simp
  finally have "\<lfloor>q / of_int b\<rfloor> \<le> \<lfloor>q - 1\<rfloor>" by (rule floor_mono)
  then have "\<lfloor>q / of_int b\<rfloor> < \<lfloor>q\<rfloor>" by simp
  moreover have "0 \<le> \<lfloor>q / of_int b\<rfloor>" using q1 by simp
  moreover have "\<not> q < 1" using b b2 by simp
  ultimately show "((b, q / of_int b), (b, q)) \<in>
      measures [\<lambda>(b, q). if q < 1 then 1 else 0,
                \<lambda>(b, q). if q < 1 then nat \<lceil>1 / q\<rceil> else nat \<lfloor>q\<rfloor>]"
    using q1 by simp
next
  fix b :: int and q :: rat
  assume a: "\<not> (b < 2 \<or> q \<le> 0)" and b: "\<not> of_int b \<le> q" and c: "q < 1"
  have b2: "(2::rat) \<le> of_int b" using a by simp
  have q0: "0 < q" using a by simp
  show "((b, q * of_int b), (b, q)) \<in>
      measures [\<lambda>(b, q). if q < 1 then 1 else 0,
                \<lambda>(b, q). if q < 1 then nat \<lceil>1 / q\<rceil> else nat \<lfloor>q\<rfloor>]"
  proof (cases "q * of_int b < 1")
    case False
    then show ?thesis using c by simp
  next
    case True
    have "1 / (q * of_int b) \<le> 1 / (q * 2)"
      using q0 b2 by (intro divide_left_mono) auto
    also have "\<dots> \<le> 1 / q - 1"
    proof -
      have "q * 2 \<le> q * of_int b" using b2 q0 by simp
      then have "2 * q \<le> 1" using True by simp
      then have "1 \<le> 1 / (2 * q)" using q0 by simp
      moreover have "1 / q = 1 / (2 * q) + 1 / (2 * q)" using q0 by simp
      ultimately show ?thesis by (simp add: mult.commute)
    qed
    finally have "\<lceil>1 / (q * of_int b)\<rceil> \<le> \<lceil>1 / q - 1\<rceil>" by (rule ceiling_mono)
    then have "\<lceil>1 / (q * of_int b)\<rceil> < \<lceil>1 / q\<rceil>" by simp
    moreover have "0 < \<lceil>1 / q\<rceil>" using q0 by simp
    ultimately show ?thesis using True c by simp
  qed
qed

declare floorLog.simps [simp del]

definition roundTiesToEven :: "rat \<Rightarrow> int" where
  "roundTiesToEven q =
     (let f = \<lfloor>q\<rfloor>; r = q - of_int f
      in if r < 1 / 2 then f else if 1 / 2 < r then f + 1 else if even f then f else f + 1)"

text \<open>
  The Number value of a real: the nearest double, ties to the even significand, with
  53 bits of precision, subnormals below \<open>2^-1022\<close> and infinity from \<open>2^1024\<close> on.
\<close>

definition roundToDouble :: "rat \<Rightarrow> number" where
  "roundToDouble q =
     (if q = 0 then Fin 0
      else
        let e = max (floorLog 2 \<bar>q\<bar>) (- 1022);
            ulp = pow2 (e - 52);
            r = of_int (roundTiesToEven (\<bar>q\<bar> / ulp)) * ulp
        in if pow2 1024 \<le> r then (if q < 0 then NegInf else PosInf)
           else if r = 0 then (if q < 0 then NegZero else Fin 0)
           else Fin (if q < 0 then - r else r))"

text \<open>\<open>x / d\<close> for a finite divisor \<open>d > 0\<close>.\<close>

definition divideBy :: "number \<Rightarrow> rat \<Rightarrow> number" where
  "divideBy x d = (case x of Fin q \<Rightarrow> roundToDouble (q / d) | _ \<Rightarrow> x)"

text \<open>
  \<open>Number::toString\<close>, radix 10. For a double \<open>x > 0\<close> the digits are the integers
  \<open>n\<close>, \<open>k\<close>, \<open>s\<close> with \<open>10^(k-1) \<le> s < 10^k\<close>, \<open>s * 10^(n-k)\<close> rounding to \<open>x\<close>, and
  \<open>k\<close> as small as possible; among several, the value nearest to \<open>x\<close>, then the even
  \<open>s\<close>. Seventeen digits always suffice for a double.
\<close>

definition digitCandidates :: "rat \<Rightarrow> nat \<Rightarrow> (int \<times> nat \<times> int) list" where
  "digitCandidates x k =
     (let n0 = floorLog 10 x + 1
      in [(n, k, s).
            n \<leftarrow> [n0, n0 + 1],
            s \<leftarrow> [\<lfloor>x / pow10 (n - int k)\<rfloor>, \<lceil>x / pow10 (n - int k)\<rceil>],
            10 ^ (k - 1) \<le> s \<and> s < 10 ^ k \<and> roundToDouble (of_int s * pow10 (n - int k)) = Fin x])"

definition nearer :: "rat \<Rightarrow> (int \<times> nat \<times> int) \<Rightarrow> (int \<times> nat \<times> int) \<Rightarrow> (int \<times> nat \<times> int)" where
  "nearer x c d =
     (let dist = (\<lambda>(n, k, s). \<bar>of_int s * pow10 (n - int k) - x\<bar>)
      in if dist d < dist c \<or> (dist d = dist c \<and> even (snd (snd d)) \<and> odd (snd (snd c)))
         then d else c)"

fun firstCandidates :: "rat \<Rightarrow> nat list \<Rightarrow> (int \<times> nat \<times> int) list" where
  "firstCandidates x [] = []"
| "firstCandidates x (k # ks) =
     (case digitCandidates x k of [] \<Rightarrow> firstCandidates x ks | c # cs \<Rightarrow> c # cs)"

definition shortestDigits :: "rat \<Rightarrow> (int \<times> nat \<times> int)" where
  "shortestDigits x =
     (case firstCandidates x [1, 2, 3, 4, 5, 6, 7, 8, 9, 10, 11, 12, 13, 14, 15, 16, 17] of
        [] \<Rightarrow> (floorLog 10 x + 1, 17, \<lfloor>x / pow10 (floorLog 10 x + 1 - 17)\<rfloor>)
      | c # cs \<Rightarrow> foldl (nearer x) c cs)"

definition positiveToString :: "rat \<Rightarrow> string" where
  "positiveToString x =
     (let (n, k, s) = shortestDigits x; ds = decimalDigits s
      in if int k \<le> n \<and> n \<le> 21 then ds @ replicate (nat (n - int k)) CHR ''0''
         else if 0 < n \<and> n \<le> 21 then take (nat n) ds @ ''.'' @ drop (nat n) ds
         else if - 6 < n \<and> n \<le> 0 then ''0.'' @ replicate (nat (- n)) CHR ''0'' @ ds
         else
           let e = n - 1;
               es = (if e < 0 then ''-'' else ''+'') @ decimalDigits \<bar>e\<bar>
           in if k = 1 then ds @ ''e'' @ es
              else take 1 ds @ ''.'' @ drop 1 ds @ ''e'' @ es)"

definition numberToString :: "number \<Rightarrow> string" where
  "numberToString x =
     (case x of
        NaN \<Rightarrow> ''NaN''
      | PosInf \<Rightarrow> ''Infinity''
      | NegInf \<Rightarrow> ''-Infinity''
      | NegZero \<Rightarrow> ''0''
      | Fin q \<Rightarrow>
          if q = 0 then ''0''
          else if q < 0 then ''-'' @ positiveToString (- q)
          else positiveToString q)"

subsection \<open>Conversions and built-in operations\<close>

text \<open>
  \<open>ToString\<close>. An array joins the strings of its elements with commas, \<open>null\<close> and
  \<open>undefined\<close> elements giving the empty string. A value parsed from JSON holds no
  function, so an object with a property \<open>toString\<close> of its own has no callable
  \<open>toString\<close> and (its \<open>valueOf\<close> returning no primitive) raises a TypeError; any other
  object inherits \<open>Object.prototype.toString\<close>.
\<close>

fun ToString :: "jsval \<Rightarrow> exn + string"
  and joinElements :: "jsval list \<Rightarrow> exn + string" where
  "ToString Undefined = Inr ''undefined''"
| "ToString Null = Inr ''null''"
| "ToString (Bool b) = Inr (if b then ''true'' else ''false'')"
| "ToString (Num n) = Inr (numberToString n)"
| "ToString (Str s) = Inr s"
| "ToString (Arr xs) = joinElements xs"
| "ToString (Obj m) =
     (if ''toString'' |\<in>| fmdom m then Inl TypeError else Inr ''[object Object]'')"
| "joinElements [] = Inr []"
| "joinElements (x # xs) =
     (case (if x = Undefined \<or> x = Null then Inr [] else ToString x) of
        Inl e \<Rightarrow> Inl e
      | Inr s \<Rightarrow>
          if xs = [] then Inr s
          else (case joinElements xs of Inl e \<Rightarrow> Inl e | Inr r \<Rightarrow> Inr (s @ '','' @ r)))"

text \<open>The method call \<open>v.toString()\<close>: \<open>null\<close> and \<open>undefined\<close> have no properties.\<close>

definition toStringMethod :: "jsval \<Rightarrow> exn + string" where
  "toStringMethod v = (if v = Undefined \<or> v = Null then Inl TypeError else ToString v)"

text \<open>\<open>s.replace(pat, rep)\<close> for a string pattern: the first occurrence only.\<close>

fun replaceFirst :: "string \<Rightarrow> string \<Rightarrow> string \<Rightarrow> string" where
  "replaceFirst pat rep [] = (if pat = [] then rep else [])"
| "replaceFirst pat rep (c # cs) =
     (if take (length pat) (c # cs) = pat then rep @ drop (length pat) (c # cs)
      else c # replaceFirst pat rep cs)"

text \<open>The method call \<open>v.replace('0x', '')\<close>: only a string has a callable \<open>replace\<close>.\<close>

definition replaceMethod :: "jsval \<Rightarrow> exn + string" where
  "replaceMethod v = (case v of Str s \<Rightarrow> Inr (replaceFirst ''0x'' [] s) | _ \<Rightarrow> Inl TypeError)"

definition startsWith :: "string \<Rightarrow> string \<Rightarrow> bool" where
  "startsWith s p = (take (length p) s = p)"

text \<open>
  \<open>parseInt(str, 16)\<close>: leading white space, a sign, an optional \<open>0x\<close> or \<open>0X\<close>, then
  the longest run of hexadecimal digits; \<open>NaN\<close> when there is none.
\<close>

definition parseInt16 :: "string \<Rightarrow> number" where
  "parseInt16 str =
     (let s = dropWhile isStrWhiteSpaceChar str;
          negative = (s \<noteq> [] \<and> hd s = CHR ''-'');
          s1 = (if s \<noteq> [] \<and> (hd s = CHR ''+'' \<or> hd s = CHR ''-'') then tl s else s);
          s2 = (if take 2 s1 = ''0x'' \<or> take 2 s1 = ''0X'' then drop 2 s1 else s1);
          z = takeWhile (isDigit 16) s2
      in if z = [] then NaN
         else
           let mathInt = digitsValue 16 z
           in if mathInt = 0 then (if negative then NegZero else Fin 0)
              else roundToDouble (of_int (if negative then - mathInt else mathInt)))"

text \<open>
  The function \<open>BigInt(v)\<close>: a Number must be integral (RangeError), a string must parse
  (SyntaxError), an array or object is first converted to a string.
\<close>

definition BigInt :: "jsval \<Rightarrow> exn + int" where
  "BigInt v =
     (case v of
        Undefined \<Rightarrow> Inl TypeError
      | Null \<Rightarrow> Inl TypeError
      | Bool b \<Rightarrow> Inr (if b then 1 else 0)
      | Num n \<Rightarrow>
          (case n of
             Fin q \<Rightarrow> if of_int \<lfloor>q\<rfloor> = q then Inr \<lfloor>q\<rfloor> else Inl RangeError
           | NegZero \<Rightarrow> Inr 0
           | _ \<Rightarrow> Inl RangeError)
      | _ \<Rightarrow>
          (case ToString v of
             Inl e \<Rightarrow> Inl e
           | Inr s \<Rightarrow> (case StringToBigInt s of None \<Rightarrow> Inl SyntaxError | Some n \<Rightarrow> Inr n)))"

text \<open>\<open>Number(n)\<close> for a BigInt \<open>n\<close>.\<close>

definition Number :: "int \<Rightarrow> number" where
  "Number n = roundToDouble (of_int n)"

subsection \<open>Objects\<close>

text \<open>
  \<open>get v k\<close> is the property read \<open>v.k\<close> on a value other than \<open>null\<close> and \<open>undefined\<close>,
  for the names the program reads (\<open>blockNumber\<close>, \<open>gas\<close>, \<open>value\<close>, \<open>number\<close>,
  \<open>transactions\<close>, \<open>result\<close>, \<open>message\<close>, ...): none is an array index or a property of
  a prototype, so only an object's own property gives a value.
\<close>

definition get :: "jsval \<Rightarrow> string \<Rightarrow> jsval" where
  "get v k =
     (case v of
        Obj m \<Rightarrow> (case fmlookup m k of Some x \<Rightarrow> x | None \<Rightarrow> Undefined)
      | _ \<Rightarrow> Undefined)"

text \<open>The own enumerable properties that a spread \<open>...v\<close> copies.\<close>

definition ownProperties :: "jsval \<Rightarrow> (string, jsval) fmap" where
  "ownProperties v =
     (case v of
        Obj m \<Rightarrow> m
      | Arr xs \<Rightarrow> fmap_of_list (zip (map (\<lambda>i. decimalDigits (int i)) [0 ..< length xs]) xs)
      | Str s \<Rightarrow>
          fmap_of_list (zip (map (\<lambda>i. decimalDigits (int i)) [0 ..< length s])
                            (map (\<lambda>c. Str [c]) s))
      | _ \<Rightarrow> fmempty)"

definition spread :: "jsval \<Rightarrow> (string, jsval) fmap \<Rightarrow> (string, jsval) fmap" where
  "spread v m = m ++\<^sub>f ownProperties v"

text \<open>\<open>a && b\<close>, where evaluating \<open>b\<close> may raise.\<close>

definition andAlso :: "jsval \<Rightarrow> exn + jsval \<Rightarrow> exn + jsval" where
  "andAlso a b = (if truthy a then b else Inr a)"

section \<open>utils.ts\<close>

text \<open>The functions of \<open>src/utils.ts\<close>, the file that \<open>api.ts\<close> imports.\<close>

definition hexToDecimal :: "jsval \<Rightarrow> exn + number" where
  "hexToDecimal hex =
     (if \<not> truthy hex then Inr (Fin 0)
      else andThen (replaceMethod hex) (\<lambda>s. Inr (parseInt16 s)))"

definition hexToDecimalString :: "jsval \<Rightarrow> exn + string" where
  "hexToDecimalString hex =
     (if \<not> truthy hex then Inr ''0''
      else
        andThen (replaceMethod hex) (\<lambda>cleanHex.
        andThen (BigInt (Str (''0x'' @ cleanHex))) (\<lambda>n.
        Inr (bigIntToString n))))"

definition weiToEther :: "jsval \<Rightarrow> exn + string" where
  "weiToEther weiHex =
     (if \<not> truthy weiHex then Inr ''0''
      else
        andThen (BigInt weiHex) (\<lambda>wei.
        let ether = divideBy (Number wei) (10 ^ 18)
        in Inr (numberToString ether)))"

definition numberResult :: "exn + number \<Rightarrow> exn + jsval" where
  "numberResult r = andThen r (\<lambda>n. Inr (Num n))"

definition transformTransaction :: "jsval \<Rightarrow> exn + jsval" where
  "transformTransaction tx =
     (if \<not> truthy tx \<or> typeof tx \<noteq> ''object'' then Inr tx
      else
        andThen (if truthy (get tx ''blockNumber'')
                 then numberResult (hexToDecimal (get tx ''blockNumber'')) else Inr Null) (\<lambda>blockNumber.
        andThen (if truthy (get tx ''transactionIndex'')
                 then numberResult (hexToDecimal (get tx ''transactionIndex'')) else Inr Null) (\<lambda>transactionIndex.
        andThen (hexToDecimal (get tx ''gas'')) (\<lambda>gas.
        andThen (if truthy (get tx ''gasPrice'')
                 then numberResult (hexToDecimal (get tx ''gasPrice'')) else Inr Null) (\<lambda>gasPrice.
        andThen (hexToDecimal (get tx ''nonce'')) (\<lambda>nonce.
        andThen (hexToDecimalString (get tx ''value'')) (\<lambda>wei.
        andThen (weiToEther (get tx ''value'')) (\<lambda>ether.
        andThen (andAlso (get tx ''gasUsed'')
                   (andThen (hexToDecimal (get tx ''gasUsed'')) (\<lambda>n.
                    Inr (Obj (fmap_of_list [(''gasUsed'', Num n)]))))) (\<lambda>gasUsed.
        andThen (andAlso (get tx ''cumulativeGasUsed'')
                   (andThen (hexToDecimal (get tx ''cumulativeGasUsed'')) (\<lambda>n.
                    Inr (Obj (fmap_of_list [(''cumulativeGasUsed'', Num n)]))))) (\<lambda>cumulativeGasUsed.
        andThen (andAlso (get tx ''effectiveGasPrice'')
                   (andThen (hexToDecimal (get tx ''effectiveGasPrice'')) (\<lambda>n.
                    Inr (Obj (fmap_of_list [(''effectiveGasPrice'', Num n)]))))) (\<lambda>effectiveGasPrice.
        Inr (Obj
          (spread effectiveGasPrice
          (spread cumulativeGasUsed
          (spread gasUsed
          (fmupd ''value'' (Obj (fmap_of_list [(''wei'', Str wei), (''ether'', Str ether)]))
          (fmupd ''nonce'' (Num nonce)
          (fmupd ''gasPrice'' gasPrice
          (fmupd ''gas'' (Num gas)
          (fmupd ''transactionIndex'' transactionIndex
          (fmupd ''blockNumber'' blockNumber
          (spread tx fmempty))))))))))))))))))))))"

definition transformResponse :: "string \<Rightarrow> jsval \<Rightarrow> exn + jsval" where
  "transformResponse method result =
     (if \<not> truthy result then Inr result
      else if method = ''eth_blockNumber'' \<or> method = ''eth_gasPrice'' \<or> method = ''eth_estimateGas''
      then numberResult (hexToDecimal result)
      else if method = ''eth_getBalance''
      then
        andThen (hexToDecimalString result) (\<lambda>wei.
        andThen (weiToEther result) (\<lambda>ether.
        Inr (Obj (fmap_of_list [(''wei'', Str wei), (''ether'', Str ether)]))))
      else if method = ''eth_getBlockByNumber'' \<or> method = ''eth_getBlockByHash''
      then
        (if typeof result = ''object''
         then
           andThen (hexToDecimal (get result ''number'')) (\<lambda>number.
           andThen (hexToDecimal (get result ''gasLimit'')) (\<lambda>gasLimit.
           andThen (hexToDecimal (get result ''gasUsed'')) (\<lambda>gasUsed.
           andThen (hexToDecimal (get result ''timestamp'')) (\<lambda>timestamp.
           andThen (case get result ''transactions'' of
                      Arr txs \<Rightarrow>
                        traverse (\<lambda>tx. if typeof tx = ''object'' then transformTransaction tx
                                       else Inr tx) txs
                    | _ \<Rightarrow> Inl TypeError) (\<lambda>transactions.
           Inr (Obj
             (fmupd ''transactions'' (Arr transactions)
             (fmupd ''timestamp'' (Num timestamp)
             (fmupd ''gasUsed'' (Num gasUsed)
             (fmupd ''gasLimit'' (Num gasLimit)
             (fmupd ''number'' (Num number)
             (spread result fmempty))))))))))))
         else Inr result)
      else if method = ''eth_getTransactionByHash'' \<or> method = ''eth_getTransactionReceipt''
      then transformTransaction result
      else Inr result)"

section \<open>utils.ts, the guarded revision\<close>

text \<open>
  The repository holds a second text of \<open>utils.ts\<close>, whose conversions test for \<open>'0x'\<close>
  and for \<open>NaN\<close>, catch what \<open>BigInt\<close> raises, and whose block rule converts a field
  only when it is there. Its functions carry the suffix \<open>G\<close>.
\<close>

definition hexToDecimalG :: "jsval \<Rightarrow> exn + number" where
  "hexToDecimalG hex =
     (if \<not> truthy hex \<or> hex = Str ''0x'' then Inr (Fin 0)
      else
        andThen (toStringMethod hex) (\<lambda>s.
        let cleanHex = replaceFirst ''0x'' [] s;
            result = parseInt16 cleanHex
        in Inr (if result = NaN then Fin 0 else result)))"

definition hexToDecimalStringG :: "jsval \<Rightarrow> exn + string" where
  "hexToDecimalStringG hex =
     (if \<not> truthy hex \<or> hex = Str ''0x'' then Inr ''0''
      else
        (case andThen (toStringMethod hex) (\<lambda>s.
                let cleanHex = replaceFirst ''0x'' [] s
                in if cleanHex = [] then Inr ''0''
                   else andThen (BigInt (Str (''0x'' @ cleanHex))) (\<lambda>n. Inr (bigIntToString n))) of
           Inl error \<Rightarrow> Inr ''0''
         | Inr s \<Rightarrow> Inr s))"

definition weiToEtherG :: "jsval \<Rightarrow> exn + string" where
  "weiToEtherG weiHex =
     (if \<not> truthy weiHex \<or> weiHex = Str ''0x'' then Inr ''0''
      else
        (case andThen (BigInt weiHex) (\<lambda>wei.
                let ether = divideBy (Number wei) (10 ^ 18)
                in Inr (numberToString ether)) of
           Inl error \<Rightarrow> Inr ''0''
         | Inr s \<Rightarrow> Inr s))"

definition transformTransactionG :: "jsval \<Rightarrow> exn + jsval" where
  "transformTransactionG tx =
     (if \<not> truthy tx \<or> typeof tx \<noteq> ''object'' then Inr tx
      else
        andThen (if truthy (get tx ''blockNumber'')
                 then numberResult (hexToDecimalG (get tx ''blockNumber'')) else Inr Null) (\<lambda>blockNumber.
        andThen (if truthy (get tx ''transactionIndex'')
                 then numberResult (hexToDecimalG (get tx ''transactionIndex'')) else Inr Null) (\<lambda>transactionIndex.
        andThen (hexToDecimalG (get tx ''gas'')) (\<lambda>gas.
        andThen (if truthy (get tx ''gasPrice'')
                 then numberResult (hexToDecimalG (get tx ''gasPrice'')) else Inr Null) (\<lambda>gasPrice.
        andThen (hexToDecimalG (get tx ''nonce'')) (\<lambda>nonce.
        andThen (hexToDecimalStringG (get tx ''value'')) (\<lambda>wei.
        andThen (weiToEtherG (get tx ''value'')) (\<lambda>ether.
        andThen (andAlso (get tx ''gasUsed'')
                   (andThen (hexToDecimalG (get tx ''gasUsed'')) (\<lambda>n.
                    Inr (Obj (fmap_of_list [(''gasUsed'', Num n)]))))) (\<lambda>gasUsed.
        andThen (andAlso (get tx ''cumulativeGasUsed'')
                   (andThen (hexToDecimalG (get tx ''cumulativeGasUsed'')) (\<lambda>n.
                    Inr (Obj (fmap_of_list [(''cumulativeGasUsed'', Num n)]))))) (\<lambda>cumulativeGasUsed.
        andThen (andAlso (get tx ''effectiveGasPrice'')
                   (andThen (hexToDecimalG (get tx ''effectiveGasPrice'')) (\<lambda>n.
                    Inr (Obj (fmap_of_list [(''effectiveGasPrice'', Num n)]))))) (\<lambda>effectiveGasPrice.
        Inr (Obj
          (spread effectiveGasPrice
          (spread cumulativeGasUsed
          (spread gasUsed
          (fmupd ''value'' (Obj (fmap_of_list [(''wei'', Str wei), (''ether'', Str ether)]))
          (fmupd ''nonce'' (Num nonce)
          (fmupd ''gasPrice'' gasPrice
          (fmupd ''gas'' (Num gas)
          (fmupd ''transactionIndex'' transactionIndex
          (fmupd ''blockNumber'' blockNumber
          (spread tx fmempty))))))))))))))))))))))"

text \<open>One guarded field of the block rule: \<open>...(result.k && { k: hexToDecimal(result.k) })\<close>.\<close>

definition convertedField :: "jsval \<Rightarrow> string \<Rightarrow> exn + jsval" where
  "convertedField result k =
     andAlso (get result k)
       (andThen (hexToDecimalG (get result k)) (\<lambda>n. Inr (Obj (fmap_of_list [(k, Num n)]))))"

definition transformResponseG :: "string \<Rightarrow> jsval \<Rightarrow> exn + jsval" where
  "transformResponseG method result =
     (if \<not> truthy result then Inr result
      else if method = ''eth_blockNumber'' \<or> method = ''eth_gasPrice'' \<or> method = ''eth_estimateGas''
      then numberResult (hexToDecimalG result)
      else if method = ''eth_getBalance''
      then
        (if typeof result \<noteq> ''string'' then Inr result
         else
           andThen (hexToDecimalStringG result) (\<lambda>wei.
           andThen (weiToEtherG result) (\<lambda>ether.
           Inr (Obj (fmap_of_list [(''wei'', Str wei), (''ether'', Str ether)])))))
      else if method = ''eth_getBlockByNumber'' \<or> method = ''eth_getBlockByHash''
      then
        (if typeof result = ''object''
         then
           andThen (convertedField result ''number'') (\<lambda>number.
           andThen (convertedField result ''gasLimit'') (\<lambda>gasLimit.
           andThen (convertedField result ''gasUsed'') (\<lambda>gasUsed.
           andThen (convertedField result ''timestamp'') (\<lambda>timestamp.
           andThen (andAlso (get result ''transactions'')
                      (andThen (case get result ''transactions'' of
                                  Arr txs \<Rightarrow>
                                    andThen (traverse (\<lambda>tx. if typeof tx = ''object''
                                                            then transformTransactionG tx
                                                            else Inr tx) txs) (\<lambda>ys. Inr (Arr ys))
                                | other \<Rightarrow> Inr other) (\<lambda>ts.
                       Inr (Obj (fmap_of_list [(''transactions'', ts)]))))) (\<lambda>transactions.
           Inr (Obj
             (spread transactions
             (spread timestamp
             (spread gasUsed
             (spread gasLimit
             (spread number
             (spread result fmempty))))))))))))
         else Inr result)
      else if method = ''eth_getTransactionByHash'' \<or> method = ''eth_getTransactionReceipt''
      then transformTransactionG result
      else Inr result)"

section \<open>api.ts\<close>

definition INVALID_PARAMS :: int where
  "INVALID_PARAMS = - 32602"

text \<open>\<open>params\<close> is \<open>None\<close> when the caller passes no array.\<close>

definition validateParams :: "string \<Rightarrow> jsval list option \<Rightarrow> exn + unit" where
  "validateParams method params =
     (if method = ''eth_getBalance'' then
        (case params of
           None \<Rightarrow>
             Inl (ValidationCloudError
                    (Text ''eth_getBalance requires address and block parameters'')
                    (Some INVALID_PARAMS) Undefined)
         | Some ps \<Rightarrow>
             if length ps \<noteq> 2
             then Inl (ValidationCloudError
                         (Text ''eth_getBalance requires address and block parameters'')
                         (Some INVALID_PARAMS) Undefined)
             else if typeof (ps ! 0) \<noteq> ''string''
                     \<or> \<not> (case ps ! 0 of Str s \<Rightarrow> startsWith s ''0x'' | _ \<Rightarrow> False)
             then Inl (ValidationCloudError (Text ''Invalid address parameter'')
                         (Some INVALID_PARAMS) Undefined)
             else Inr ())
      else if method = ''eth_getTransactionByHash'' then
        (case params of
           None \<Rightarrow>
             Inl (ValidationCloudError (Text ''Invalid transaction hash parameter'')
                    (Some INVALID_PARAMS) Undefined)
         | Some ps \<Rightarrow>
             if length ps \<noteq> 1 \<or> typeof (ps ! 0) \<noteq> ''string''
                \<or> \<not> (case ps ! 0 of Str s \<Rightarrow> startsWith s ''0x'' | _ \<Rightarrow> False)
             then Inl (ValidationCloudError (Text ''Invalid transaction hash parameter'')
                         (Some INVALID_PARAMS) Undefined)
             else Inr ())
      else if method = ''eth_getLogs'' then
        (case params of
           None \<Rightarrow>
             Inl (ValidationCloudError (Text ''eth_getLogs requires a filter object parameter'')
                    (Some INVALID_PARAMS) Undefined)
         | Some ps \<Rightarrow>
             if length ps \<noteq> 1 \<or> typeof (ps ! 0) \<noteq> ''object''
             then Inl (ValidationCloudError
                         (Text ''eth_getLogs requires a filter object parameter'')
                         (Some INVALID_PARAMS) Undefined)
             else Inr ())
      else Inr ())"

text \<open>
  The client object: its counter of request ids and, to observe the network, the bodies
  it has posted so far. \<open>post\<close> stands for \<open>this.client.post('', requestBody)\<close>: it
  rejects with an error or resolves with the response's \<open>data\<close>.
\<close>

record api =
  messageId :: int
  posted :: "jsval list"

text \<open>The \<open>catch\<close> block of \<open>request\<close>: the error that leaves it.\<close>

definition catchBlock :: "exn \<Rightarrow> exn" where
  "catchBlock error =
     (case error of
        AxiosError msg response \<Rightarrow>
          (let m = (case response of
                      None \<Rightarrow> Undefined
                    | Some (status, data) \<Rightarrow>
                        if data = Undefined \<or> data = Null then Undefined else get data ''message'');
               message = (if truthy m then m else Str msg)
           in case ToString message of
                Inl e \<Rightarrow> e
              | Inr text \<Rightarrow>
                  ValidationCloudError (Text text) (map_option fst response)
                    (case response of None \<Rightarrow> Undefined | Some (status, data) \<Rightarrow> data))
      | ValidationCloudError m c d \<Rightarrow> error
      | TypeError \<Rightarrow> ValidationCloudError TypeErrorText None Undefined
      | SyntaxError \<Rightarrow> ValidationCloudError SyntaxErrorText None Undefined
      | RangeError \<Rightarrow> ValidationCloudError RangeErrorText None Undefined
      | OtherError msg \<Rightarrow> ValidationCloudError (Text msg) None Undefined
      | NonError v \<Rightarrow> ValidationCloudError (Text ''Unknown error'') None Undefined)"

text \<open>What \<open>request\<close> does with the response's \<open>data\<close>.\<close>

definition normalise :: "string \<Rightarrow> jsval \<Rightarrow> exn + jsval" where
  "normalise method data =
     (if data = Undefined \<or> data = Null then Inl TypeError
      else if get data ''result'' \<noteq> Undefined
      then
        andThen (transformResponse method (get data ''result'')) (\<lambda>r.
        Inr (case data of Obj m \<Rightarrow> Obj (fmupd ''result'' r m) | _ \<Rightarrow> data))
      else Inr data)"

definition request ::
  "(jsval \<Rightarrow> exn + jsval) \<Rightarrow> api \<Rightarrow> string \<Rightarrow> jsval list option \<Rightarrow> (exn + jsval) \<times> api" where
  "request post this method params =
     (case validateParams method params of
        Inl error \<Rightarrow> (Inl (catchBlock error), this)
      | Inr u \<Rightarrow>
          let requestBody = Obj (fmap_of_list
                [(''jsonrpc'', Str ''2.0''),
                 (''id'', Num (Fin (of_int (messageId this)))),
                 (''method'', Str method),
                 (''params'', Arr (case params of None \<Rightarrow> [] | Some ps \<Rightarrow> ps))]);
              this' = this\<lparr>messageId := messageId this + 1,
                           posted := posted this @ [requestBody]\<rparr>
          in (case andThen (post requestBody) (normalise method) of
                Inl error \<Rightarrow> (Inl (catchBlock error), this')
              | Inr data \<Rightarrow> (Inr data, this')))"

section \<open>The transaction policy\<close>

text \<open>
  The two texts of \<open>transformTransaction\<close> are the same but for the conversions they
  call: \<open>transformWith\<close> is that text with the three conversions as parameters.
\<close>

definition transformWith ::
  "(jsval \<Rightarrow> exn + number) \<Rightarrow> (jsval \<Rightarrow> exn + string) \<Rightarrow> (jsval \<Rightarrow> exn + string) \<Rightarrow>
   jsval \<Rightarrow> exn + jsval" where
  "transformWith h hs w tx =
     (if \<not> truthy tx \<or> typeof tx \<noteq> ''object'' then Inr tx
      else
        andThen (if truthy (get tx ''blockNumber'')
                 then numberResult (h (get tx ''blockNumber'')) else Inr Null) (\<lambda>blockNumber.
        andThen (if truthy (get tx ''transactionIndex'')
                 then numberResult (h (get tx ''transactionIndex'')) else Inr Null) (\<lambda>transactionIndex.
        andThen (h (get tx ''gas'')) (\<lambda>gas.
        andThen (if truthy (get tx ''gasPrice'')
                 then numberResult (h (get tx ''gasPrice'')) else Inr Null) (\<lambda>gasPrice.
        andThen (h (get tx ''nonce'')) (\<lambda>nonce.
        andThen (hs (get tx ''value'')) (\<lambda>wei.
        andThen (w (get tx ''value'')) (\<lambda>ether.
        andThen (andAlso (get tx ''gasUsed'')
                   (andThen (h (get tx ''gasUsed'')) (\<lambda>n.
                    Inr (Obj (fmap_of_list [(''gasUsed'', Num n)]))))) (\<lambda>gasUsed.
        andThen (andAlso (get tx ''cumulativeGasUsed'')
                   (andThen (h (get tx ''cumulativeGasUsed'')) (\<lambda>n.
                    Inr (Obj (fmap_of_list [(''cumulativeGasUsed'', Num n)]))))) (\<lambda>cumulativeGasUsed.
        andThen (andAlso (get tx ''effectiveGasPrice'')
                   (andThen (h (get tx ''effectiveGasPrice'')) (\<lambda>n.
                    Inr (Obj (fmap_of_list [(''effectiveGasPrice'', Num n)]))))) (\<lambda>effectiveGasPrice.
        Inr (Obj
          (spread effectiveGasPrice
          (spread cumulativeGasUsed
          (spread gasUsed
          (fmupd ''value'' (Obj (fmap_of_list [(''wei'', Str wei), (''ether'', Str ether)]))
          (fmupd ''nonce'' (Num nonce)
          (fmupd ''gasPrice'' gasPrice
          (fmupd ''gas'' (Num gas)
          (fmupd ''transactionIndex'' transactionIndex
          (fmupd ''blockNumber'' blockNumber
          (spread tx fmempty))))))))))))))))))))))"

text \<open>
  The policy, field by field. \<open>conversionsReturn\<close>: no conversion that the transform
  calls raises. \<open>fieldPolicy\<close>: \<open>blockNumber\<close>, \<open>transactionIndex\<close> and \<open>gasPrice\<close> are
  the converted number when truthy in the source and \<open>null\<close> otherwise; \<open>gas\<close> and
  \<open>nonce\<close> are always the converted number; \<open>value\<close> is the pair of \<open>wei\<close> and
  \<open>ether\<close>; \<open>gasUsed\<close>, \<open>cumulativeGasUsed\<close> and \<open>effectiveGasPrice\<close> are the converted
  number when truthy in the source and otherwise as in the source (absent when absent,
  the falsy value when present); every other property is as in the source.
\<close>

definition conversionsReturn ::
  "(jsval \<Rightarrow> exn + number) \<Rightarrow> (jsval \<Rightarrow> exn + string) \<Rightarrow> (jsval \<Rightarrow> exn + string) \<Rightarrow>
   jsval \<Rightarrow> bool" where
  "conversionsReturn h hs w tx =
     ((\<forall>k \<in> {''blockNumber'', ''transactionIndex'', ''gasPrice'', ''gasUsed'',
               ''cumulativeGasUsed'', ''effectiveGasPrice''}.
         truthy (get tx k) \<longrightarrow> \<not> isl (h (get tx k)))
      \<and> \<not> isl (h (get tx ''gas'')) \<and> \<not> isl (h (get tx ''nonce''))
      \<and> \<not> isl (hs (get tx ''value'')) \<and> \<not> isl (w (get tx ''value'')))"

definition fieldPolicy ::
  "(jsval \<Rightarrow> exn + number) \<Rightarrow> (jsval \<Rightarrow> exn + string) \<Rightarrow> (jsval \<Rightarrow> exn + string) \<Rightarrow>
   jsval \<Rightarrow> jsval \<Rightarrow> bool" where
  "fieldPolicy h hs w tx out =
     ((\<forall>k \<in> {''blockNumber'', ''transactionIndex'', ''gasPrice''}.
         (truthy (get tx k) \<longrightarrow> numberResult (h (get tx k)) = Inr (get out k))
         \<and> (\<not> truthy (get tx k) \<longrightarrow> get out k = Null))
      \<and> (\<forall>k \<in> {''gas'', ''nonce''}. numberResult (h (get tx k)) = Inr (get out k))
      \<and> (\<exists>wei ether.
           hs (get tx ''value'') = Inr wei \<and> w (get tx ''value'') = Inr ether
           \<and> get out ''value'' = Obj (fmap_of_list [(''wei'', Str wei), (''ether'', Str ether)]))
      \<and> (\<forall>k \<in> {''gasUsed'', ''cumulativeGasUsed'', ''effectiveGasPrice''}.
         (truthy (get tx k) \<longrightarrow> numberResult (h (get tx k)) = Inr (get out k))
         \<and> (\<not> truthy (get tx k) \<longrightarrow>
              fmlookup (ownProperties out) k = fmlookup (ownProperties tx) k))
      \<and> (\<forall>k. k \<notin> {''blockNumber'', ''transactionIndex'', ''gas'', ''gasPrice'', ''nonce'',
                    ''value'', ''gasUsed'', ''cumulativeGasUsed'', ''effectiveGasPrice''}
           \<longrightarrow> fmlookup (ownProperties out) k = fmlookup (ownProperties tx) k))"

text \<open>The pending transaction of the specification's example.\<close>

definition pendingTransaction :: jsval where
  "pendingTransaction = Obj (fmap_of_list
     [(''blockNumber'', Null), (''transactionIndex'', Null), (''gas'', Str ''0x5208''),
      (''gasPrice'', Null), (''nonce'', Str ''0x0''), (''value'', Str ''0x0'')])"

text \<open>A mined transaction with its receipt's \<open>gasUsed\<close> and a field the policy does not name.\<close>

definition minedTransaction :: jsval where
  "minedTransaction = Obj (fmap_of_list
     [(''hash'', Str ''0xabc''), (''blockNumber'', Str ''0xa''), (''transactionIndex'', Str ''0x1''),
      (''gas'', Str ''0x5208''), (''gasPrice'', Str ''0x4a817c800''), (''nonce'', Str ''0x0''),
      (''value'', Str ''0xde0b6b3a7640000''), (''gasUsed'', Str ''0x5208'')])"

text \<open>The block of the specification's example.\<close>

definition exampleBlock :: jsval where
  "exampleBlock = Obj (fmap_of_list
     [(''number'', Str ''0xa''), (''gasLimit'', Str ''0x1234''), (''gasUsed'', Str ''0x1000''),
      (''timestamp'', Str ''0x60ad0d60''), (''transactions'', Arr [])])"

text \<open>
  The block rule as the specification has it, for an object \<open>result\<close> and the output
  \<open>out\<close>: \<open>number\<close>, \<open>gasLimit\<close>, \<open>gasUsed\<close> and \<open>timestamp\<close> are the converted number
  when truthy in the source and otherwise as in the source; a \<open>transactions\<close> array is
  mapped, its objects through the transaction transform; every other property is as in
  the source.
\<close>

definition blockPolicy :: "jsval \<Rightarrow> jsval \<Rightarrow> bool" where
  "blockPolicy result out =
     ((\<forall>k \<in> {''number'', ''gasLimit'', ''gasUsed'', ''timestamp''}.
         (truthy (get result k) \<longrightarrow> numberResult (hexToDecimalG (get result k)) = Inr (get out k))
         \<and> (\<not> truthy (get result k) \<longrightarrow>
              fmlookup (ownProperties out) k = fmlookup (ownProperties result) k))
      \<and> (\<forall>txs. get result ''transactions'' = Arr txs \<longrightarrow>
           (\<exists>ys. traverse (\<lambda>tx. if typeof tx = ''object'' then transformTransactionG tx
                                 else Inr tx) txs = Inr ys
                 \<and> get out ''transactions'' = Arr ys))
      \<and> ((\<forall>txs. get result ''transactions'' \<noteq> Arr txs) \<longrightarrow>
           fmlookup (ownProperties out) ''transactions'' =
           fmlookup (ownProperties result) ''transactions'')
      \<and> (\<forall>k. k \<notin> {''number'', ''gasLimit'', ''gasUsed'', ''timestamp'', ''transactions''}
           \<longrightarrow> fmlookup (ownProperties out) k = fmlookup (ownProperties result) k))"

section \<open>Basic facts\<close>

lemma andThen_Inl [simp]: "andThen (Inl e) f = Inl e"
  by (simp add: andThen_def)

lemma andThen_Inr [simp]: "andThen (Inr x) f = f x"
  by (simp add: andThen_def)

lemma andThen_eq_Inr: "andThen m f = Inr y \<longleftrightarrow> (\<exists>x. m = Inr x \<and> f x = Inr y)"
  by (cases m) simp_all

lemma numberResult_eq_Inr: "numberResult r = Inr v \<longleftrightarrow> (\<exists>n. r = Inr n \<and> v = Num n)"
  by (cases r) (auto simp: numberResult_def)

lemma ownProperties_falsy: "\<not> truthy v \<Longrightarrow> ownProperties v = fmempty"
  by (cases v) (auto simp: ownProperties_def)

lemma ownProperties_Obj [simp]: "ownProperties (Obj m) = m"
  by (simp add: ownProperties_def)

lemma get_Obj [simp]: "get (Obj m) k = (case fmlookup m k of Some x \<Rightarrow> x | None \<Rightarrow> Undefined)"
  by (simp add: get_def)

lemma guarded_spread:
  assumes "andAlso a (andThen (h a) (\<lambda>n. Inr (Obj (fmap_of_list [(k, Num n)])))) = Inr g"
  shows "(truthy a \<longrightarrow> (\<exists>n. h a = Inr n \<and> ownProperties g = fmupd k (Num n) fmempty))
       \<and> (\<not> truthy a \<longrightarrow> ownProperties g = fmempty)"
  using assms
  by (auto simp: andAlso_def andThen_eq_Inr ownProperties_falsy split: if_splits)

lemma nullable_field:
  assumes "(if truthy a then numberResult (h a) else Inr Null) = Inr v"
  shows "(truthy a \<longrightarrow> numberResult (h a) = Inr v) \<and> (\<not> truthy a \<longrightarrow> v = Null)"
  using assms by (auto split: if_splits)

lemma andThenE:
  assumes "andThen m f = Inr y"
  obtains x where "m = Inr x" and "f x = Inr y"
  using assms by (auto simp: andThen_eq_Inr)

lemma not_isl_iff: "\<not> isl r \<longleftrightarrow> (\<exists>x. r = Inr x)"
  by (cases r) simp_all

lemma nullable_returns:
  "(\<exists>v. (if truthy a then numberResult (h a) else Inr Null) = Inr v) \<longleftrightarrow>
   (truthy a \<longrightarrow> \<not> isl (h a))"
  by (cases "h a") (simp_all add: numberResult_def)

lemma guarded_returns:
  "(\<exists>g. andAlso a (andThen (h a) (\<lambda>n. Inr (Obj (fmap_of_list [(k, Num n)])))) = Inr g) \<longleftrightarrow>
   (truthy a \<longrightarrow> \<not> isl (h a))"
  by (cases "h a") (simp_all add: andAlso_def)

lemma traverse_Inr:
  "traverse f xs = Inr ys \<Longrightarrow>
   length ys = length xs \<and> (\<forall>i < length xs. f (xs ! i) = Inr (ys ! i))"
proof (induction xs arbitrary: ys)
  case Nil
  then show ?case by simp
next
  case (Cons x xs)
  from Cons.prems obtain y ys' where y: "f x = Inr y" and r: "traverse f xs = Inr ys'"
    and e: "ys = y # ys'"
    by (auto simp: andThen_eq_Inr)
  from Cons.IH [OF r] have "length ys' = length xs"
    and "\<forall>i < length xs. f (xs ! i) = Inr (ys' ! i)" by simp_all
  with y e show ?case by (auto simp: nth_Cons split: nat.splits)
qed

lemma get_lookup:
  "get v k \<noteq> Undefined \<Longrightarrow> fmlookup (ownProperties v) k = Some (get v k)"
  by (cases v) (auto simp: get_def split: option.splits)

section \<open>Evaluating the conversions\<close>

lemma floor_rat_numeral_div [simp]:
  "\<lfloor>numeral a / numeral b :: rat\<rfloor> = numeral a div numeral b"
  by (metis floor_divide_of_int_eq of_int_numeral)

lemma ceiling_rat_numeral_div [simp]:
  "\<lceil>numeral a / numeral b :: rat\<rceil> = - (- numeral a div numeral b)"
  by (metis ceiling_divide_eq_div of_int_numeral)

lemmas double_defs = roundToDouble_def floorLog.simps pow2_def roundTiesToEven_def Let_def

lemmas digits_defs = shortestDigits_def digitCandidates_def nearer_def pow10_def

lemmas parse_defs = StringToBigInt_def trimString_def isStrWhiteSpaceChar_def allDigits_def
  isDigit_def digitValue_def digitsValue_def

lemma BigInt_one_ether: "BigInt (Str ''0xde0b6b3a7640000'') = Inr 1000000000000000000"
  by (simp add: BigInt_def parse_defs)

lemma BigInt_tenth_ether: "BigInt (Str ''0x16345785d8a0000'') = Inr 100000000000000000"
  by (simp add: BigInt_def parse_defs)

lemma BigInt_zero: "BigInt (Str ''0x0'') = Inr 0"
  by (simp add: BigInt_def parse_defs)

lemma BigInt_0x: "BigInt (Str ''0x'') = Inl SyntaxError"
  by (simp add: BigInt_def parse_defs)

lemma Number_zero: "Number 0 = Fin 0"
  by (simp add: Number_def roundToDouble_def)

lemma Number_one_ether: "Number 1000000000000000000 = Fin 1000000000000000000"
  by (simp add: Number_def double_defs)

lemma Number_tenth_ether: "Number 100000000000000000 = Fin 100000000000000000"
  by (simp add: Number_def double_defs)

lemma divideBy_zero: "divideBy (Fin 0) d = Fin 0"
  by (simp add: divideBy_def roundToDouble_def)

lemma divideBy_one_ether: "divideBy (Fin 1000000000000000000) 1000000000000000000 = Fin 1"
  by (simp add: divideBy_def double_defs)

text \<open>The double nearest to one tenth is \<open>3602879701896397 / 2^55\<close>.\<close>

lemma divideBy_tenth_ether:
  "divideBy (Fin 100000000000000000) 1000000000000000000 =
     Fin (3602879701896397 / 36028797018963968)"
  by (simp add: divideBy_def double_defs)

lemma shortestDigits_one: "shortestDigits 1 = (1, 1, 1)"
  by (simp add: digits_defs double_defs)

lemma shortestDigits_tenth:
  "shortestDigits (3602879701896397 / 36028797018963968) = (0, 1, 1)"
  by (simp add: digits_defs double_defs)

lemma numberToString_zero: "numberToString (Fin 0) = ''0''"
  by (simp add: numberToString_def)

lemma numberToString_one: "numberToString (Fin 1) = ''1''"
  by (simp add: numberToString_def positiveToString_def shortestDigits_one decimalDigits.simps)

lemma numberToString_tenth:
  "numberToString (Fin (3602879701896397 / 36028797018963968)) = ''0.1''"
  by (simp add: numberToString_def positiveToString_def shortestDigits_tenth
      decimalDigits.simps)

lemma hexToDecimal_21000: "hexToDecimal (Str ''0x5208'') = Inr (Fin 21000)"
  by (simp add: hexToDecimal_def replaceMethod_def parseInt16_def isStrWhiteSpaceChar_def
      isDigit_def digitValue_def digitsValue_def double_defs)

lemma hexToDecimal_zero: "hexToDecimal (Str ''0x0'') = Inr (Fin 0)"
  by (simp add: hexToDecimal_def replaceMethod_def parseInt16_def isStrWhiteSpaceChar_def
      isDigit_def digitValue_def digitsValue_def)

lemma hexToDecimal_falsy: "\<not> truthy v \<Longrightarrow> hexToDecimal v = Inr (Fin 0)"
  by (simp add: hexToDecimal_def)

lemma hexToDecimalString_falsy: "\<not> truthy v \<Longrightarrow> hexToDecimalString v = Inr ''0''"
  by (simp add: hexToDecimalString_def)

lemma weiToEther_falsy: "\<not> truthy v \<Longrightarrow> weiToEther v = Inr ''0''"
  by (simp add: weiToEther_def)

lemma hexToDecimalString_zero: "hexToDecimalString (Str ''0x0'') = Inr ''0''"
  by (simp add: hexToDecimalString_def replaceMethod_def BigInt_zero bigIntToString_def
      decimalDigits.simps)

lemma weiToEther_zero: "weiToEther (Str ''0x0'') = Inr ''0''"
  by (simp add: weiToEther_def BigInt_zero Number_zero divideBy_zero numberToString_zero)

lemma hexToDecimalG_21000: "hexToDecimalG (Str ''0x5208'') = Inr (Fin 21000)"
  by (simp add: hexToDecimalG_def toStringMethod_def parseInt16_def isStrWhiteSpaceChar_def
      isDigit_def digitValue_def digitsValue_def double_defs)

lemma hexToDecimalG_zero: "hexToDecimalG (Str ''0x0'') = Inr (Fin 0)"
  by (simp add: hexToDecimalG_def toStringMethod_def parseInt16_def isStrWhiteSpaceChar_def
      isDigit_def digitValue_def digitsValue_def)

lemma hexToDecimalStringG_zero: "hexToDecimalStringG (Str ''0x0'') = Inr ''0''"
  by (simp add: hexToDecimalStringG_def toStringMethod_def BigInt_zero bigIntToString_def
      decimalDigits.simps)

lemma weiToEtherG_zero: "weiToEtherG (Str ''0x0'') = Inr ''0''"
  by (simp add: weiToEtherG_def BigInt_zero Number_zero divideBy_zero numberToString_zero)

lemmas parseInt_defs = parseInt16_def isStrWhiteSpaceChar_def isDigit_def digitValue_def
  digitsValue_def

lemma parseInt16_a: "parseInt16 ''a'' = Fin 10"
  by (simp add: parseInt_defs double_defs)
lemma parseInt16_1: "parseInt16 ''1'' = Fin 1"
  by (simp add: parseInt_defs double_defs)
lemma parseInt16_1234: "parseInt16 ''1234'' = Fin 4660"
  by (simp add: parseInt_defs double_defs)
lemma parseInt16_1000: "parseInt16 ''1000'' = Fin 4096"
  by (simp add: parseInt_defs double_defs)
lemma parseInt16_60ad0d60: "parseInt16 ''60ad0d60'' = Fin 1621953888"
  by (simp add: parseInt_defs double_defs)
lemma parseInt16_4a817c800: "parseInt16 ''4a817c800'' = Fin 20000000000"
  by (simp add: parseInt_defs double_defs)
lemma parseInt16_5208: "parseInt16 ''5208'' = Fin 21000"
  by (simp add: parseInt_defs double_defs)
lemma parseInt16_0: "parseInt16 ''0'' = Fin 0"
  by (simp add: parseInt_defs)

lemma hexToDecimal_Str: "s \<noteq> [] \<Longrightarrow> hexToDecimal (Str s) = Inr (parseInt16 (replaceFirst ''0x'' [] s))"
  by (simp add: hexToDecimal_def replaceMethod_def)

lemma hexToDecimalG_Str:
  "s \<noteq> [] \<Longrightarrow> s \<noteq> ''0x'' \<Longrightarrow> parseInt16 (replaceFirst ''0x'' [] s) \<noteq> NaN \<Longrightarrow>
   hexToDecimalG (Str s) = Inr (parseInt16 (replaceFirst ''0x'' [] s))"
  by (simp add: hexToDecimalG_def toStringMethod_def Let_def)

lemma decimalDigits_one_ether: "decimalDigits 1000000000000000000 = ''1000000000000000000''"
  by (simp add: decimalDigits.simps)

lemma hexToDecimalString_one_ether:
  "hexToDecimalString (Str ''0xde0b6b3a7640000'') = Inr ''1000000000000000000''"
  using BigInt_one_ether
  by (simp add: hexToDecimalString_def replaceMethod_def bigIntToString_def decimalDigits_one_ether)

lemma hexToDecimalStringG_one_ether:
  "hexToDecimalStringG (Str ''0xde0b6b3a7640000'') = Inr ''1000000000000000000''"
  using BigInt_one_ether
  by (simp add: hexToDecimalStringG_def toStringMethod_def bigIntToString_def decimalDigits_one_ether)

lemma weiToEther_one_ether: "weiToEther (Str ''0xde0b6b3a7640000'') = Inr ''1''"
  by (simp add: weiToEther_def BigInt_one_ether Number_one_ether divideBy_one_ether numberToString_one)

lemma weiToEtherG_one_ether: "weiToEtherG (Str ''0xde0b6b3a7640000'') = Inr ''1''"
  by (simp add: weiToEtherG_def BigInt_one_ether Number_one_ether divideBy_one_ether numberToString_one)

section \<open>The conversions\<close>

lemma digitValue_cases:
  "digitValue c = Some d \<Longrightarrow> 0 \<le> d \<and> d < 16"
  by (auto simp: digitValue_def Let_def split: if_splits)

lemma isDigit_not_space: "isDigit r c \<Longrightarrow> \<not> isStrWhiteSpaceChar c"
  by (auto simp: isDigit_def digitValue_def isStrWhiteSpaceChar_def Let_def split: if_splits option.splits)

lemma isDigit_not_x: "isDigit r c \<Longrightarrow> c \<noteq> CHR ''x'' \<and> c \<noteq> CHR ''X'' \<and> c \<noteq> CHR ''o'' \<and> c \<noteq> CHR ''O'' \<and> c \<noteq> CHR ''-'' \<and> c \<noteq> CHR ''+''"
  by (auto simp: isDigit_def digitValue_def Let_def split: if_splits option.splits)

lemma isDigit10_not_b: "isDigit 10 c \<Longrightarrow> c \<noteq> CHR ''b'' \<and> c \<noteq> CHR ''B''"
  by (auto simp: isDigit_def digitValue_def Let_def split: if_splits option.splits)

lemma replaceFirst_digits:
  "list_all (isDigit 16) ds \<Longrightarrow> replaceFirst ''0x'' [] ds = ds"
proof (induction ds)
  case Nil
  then show ?case by simp
next
  case (Cons c cs)
  then have "take 2 (c # cs) \<noteq> ''0x''"
    by (cases cs) (auto dest: isDigit_not_x)
  with Cons show ?case by (auto simp: numeral_2_eq_2)
qed

lemma replaceFirst_prefixed: "replaceFirst ''0x'' [] (''0x'' @ ds) = ds"
  by simp

lemma dropWhile_id: "xs \<noteq> [] \<Longrightarrow> \<not> P (hd xs) \<Longrightarrow> dropWhile P xs = xs"
  by (cases xs) simp_all

lemma trimString_id:
  assumes "s \<noteq> []" "\<not> isStrWhiteSpaceChar (hd s)" "\<not> isStrWhiteSpaceChar (last s)"
  shows "trimString s = s"
proof -
  have 1: "dropWhile isStrWhiteSpaceChar s = s"
    using assms by (simp add: dropWhile_id)
  have 2: "dropWhile isStrWhiteSpaceChar (rev s) = rev s"
    using assms by (simp add: dropWhile_id hd_rev)
  show ?thesis by (simp add: trimString_def 1 2)
qed

lemma digitsValue_nonneg: "0 \<le> r \<Longrightarrow> list_all (isDigit r) ds \<Longrightarrow> 0 \<le> digitsValue r ds"
proof -
  have "0 \<le> r \<Longrightarrow> list_all (isDigit r) ds \<Longrightarrow> 0 \<le> a \<Longrightarrow>
      0 \<le> foldl (\<lambda>acc c. acc * r + the (digitValue c)) a ds" for a
  proof (induction ds arbitrary: a)
    case Nil
    then show ?case by simp
  next
    case (Cons c cs)
    from Cons.prems obtain d where d: "digitValue c = Some d" "0 \<le> d"
      by (auto simp: isDigit_def split: option.splits dest: digitValue_cases)
    with Cons show ?case by simp
  qed
  then show "0 \<le> r \<Longrightarrow> list_all (isDigit r) ds \<Longrightarrow> 0 \<le> digitsValue r ds"
    by (simp add: digitsValue_def)
qed

lemma BigInt_hex_literal:
  assumes "ds \<noteq> []" "list_all (isDigit 16) ds"
  shows "BigInt (Str (''0x'' @ ds)) = Inr (digitsValue 16 ds)"
proof -
  have "\<not> isStrWhiteSpaceChar (last ds)"
    using assms by (metis isDigit_not_space last_in_set list_all_iff)
  then have "trimString (''0x'' @ ds) = ''0x'' @ ds"
    using assms by (intro trimString_id) (simp_all add: isStrWhiteSpaceChar_def)
  then show ?thesis
    using assms by (simp add: BigInt_def StringToBigInt_def allDigits_def)
qed

lemma digit_char: "0 \<le> k \<Longrightarrow> k < 10 \<Longrightarrow> digitValue (''0123456789'' ! nat k) = Some k"
proof -
  assume "0 \<le> k" "k < 10"
  then have "k = 0 \<or> k = 1 \<or> k = 2 \<or> k = 3 \<or> k = 4 \<or> k = 5 \<or> k = 6 \<or> k = 7 \<or> k = 8 \<or> k = 9"
    by arith
  then show ?thesis
    by (elim disjE) (simp_all add: digitValue_def)
qed

lemma digitsValue_snoc:
  "digitsValue r (ds @ [c]) = digitsValue r ds * r + the (digitValue c)"
  by (simp add: digitsValue_def)

lemma decimalDigits_parse:
  "0 \<le> n \<Longrightarrow> decimalDigits n \<noteq> [] \<and> list_all (isDigit 10) (decimalDigits n)
     \<and> digitsValue 10 (decimalDigits n) = n"
proof (induction n rule: decimalDigits.induct)
  case (1 n)
  show ?case
  proof (cases "n < 10")
    case True
    with 1 show ?thesis
      by (subst (1 2 3) decimalDigits.simps) (simp add: digit_char isDigit_def digitsValue_def)
  next
    case False
    with 1 have ih: "decimalDigits (n div 10) \<noteq> []" "list_all (isDigit 10) (decimalDigits (n div 10))"
      "digitsValue 10 (decimalDigits (n div 10)) = n div 10"
      by simp_all
    have m: "0 \<le> n mod 10" "n mod 10 < 10" by simp_all
    show ?thesis
      using False ih m
      by (subst (1 2 3) decimalDigits.simps)
         (simp add: digit_char isDigit_def digitsValue_snoc)
  qed
qed

lemma StringToBigInt_decimalDigits:
  assumes "0 \<le> n"
  shows "StringToBigInt (decimalDigits n) = Some n"
proof -
  let ?t = "decimalDigits n"
  from decimalDigits_parse [OF assms]
  have ne: "?t \<noteq> []" and all: "list_all (isDigit 10) ?t" and v: "digitsValue 10 ?t = n"
    by simp_all
  have h: "isDigit 10 (hd ?t)" and l: "isDigit 10 (last ?t)"
    using ne all by (simp_all add: list_all_iff)
  have trim: "trimString ?t = ?t"
    using ne h l by (intro trimString_id) (simp_all add: isDigit_not_space)
  have second: "length ?t \<ge> 2 \<Longrightarrow> isDigit 10 (?t ! 1)"
    using all by (simp add: list_all_length)
  have pre: "take 2 ?t \<noteq> ''0x''" "take 2 ?t \<noteq> ''0X''" "take 2 ?t \<noteq> ''0o''"
    "take 2 ?t \<noteq> ''0O''" "take 2 ?t \<noteq> ''0b''" "take 2 ?t \<noteq> ''0B''"
  proof -
    have "take 2 ?t = [a, b] \<Longrightarrow> isDigit 10 b" for a b
    proof -
      assume e: "take 2 ?t = [a, b]"
      then have "length ?t \<ge> 2"
        by (metis length_take list.size(3,4) min.cobounded1 One_nat_def Suc_1 numeral_2_eq_2 length_Cons)
      moreover from e have "?t ! 1 = b"
        by (metis nth_take one_less_numeral_iff semiring_norm(76) nth_Cons_0 nth_Cons_Suc One_nat_def)
      ultimately show "isDigit 10 b" using second by simp
    qed
    then show "take 2 ?t \<noteq> ''0x''" "take 2 ?t \<noteq> ''0X''" "take 2 ?t \<noteq> ''0o''"
      "take 2 ?t \<noteq> ''0O''" "take 2 ?t \<noteq> ''0b''" "take 2 ?t \<noteq> ''0B''"
      using isDigit_not_x isDigit10_not_b by blast+
  qed
  have sign: "hd ?t \<noteq> CHR ''-''" "hd ?t \<noteq> CHR ''+''"
    using h isDigit_not_x by blast+
  show ?thesis
    using ne all v pre sign by (simp add: StringToBigInt_def trim allDigits_def)
qed

text \<open>
  C3. For a hex string \<open>h\<close>, one or more hexadecimal digits \<open>ds\<close> with or without the
  prefix \<open>0x\<close>, \<open>hexToDecimalString(h)\<close> is the decimal string of the value of \<open>ds\<close>,
  whatever its size, and \<open>BigInt\<close> of that string is the value again; in both texts of
  \<open>utils.ts\<close>.
\<close>

theorem hexToDecimalString_exact:
  assumes "ds \<noteq> []" and "list_all (isDigit 16) ds" and "h = ds \<or> h = ''0x'' @ ds"
  shows "hexToDecimalString (Str h) = Inr (decimalDigits (digitsValue 16 ds))
       \<and> hexToDecimalStringG (Str h) = Inr (decimalDigits (digitsValue 16 ds))
       \<and> StringToBigInt (decimalDigits (digitsValue 16 ds)) = Some (digitsValue 16 ds)"
proof -
  have v: "0 \<le> digitsValue 16 ds"
    using assms(2) by (simp add: digitsValue_nonneg)
  have clean: "replaceFirst ''0x'' [] h = ds"
    using assms(2,3) by (auto simp: replaceFirst_digits)
  have big: "BigInt (Str (CHR ''0'' # CHR ''x'' # ds)) = Inr (digitsValue 16 ds)"
    using BigInt_hex_literal [OF assms(1,2)] by simp
  have ne: "h \<noteq> []" using assms(1,3) by auto
  have "ds \<noteq> ''0x''" using assms(2) by (auto dest: isDigit_not_x)
  then have nx: "h \<noteq> ''0x''" using assms(1,3) by auto
  have 1: "hexToDecimalString (Str h) = Inr (decimalDigits (digitsValue 16 ds))"
    using ne v by (simp add: hexToDecimalString_def replaceMethod_def clean big bigIntToString_def)
  have 2: "hexToDecimalStringG (Str h) = Inr (decimalDigits (digitsValue 16 ds))"
    using ne nx v assms(1)
    by (simp add: hexToDecimalStringG_def toStringMethod_def clean big bigIntToString_def)
  from 1 2 StringToBigInt_decimalDigits [OF v] show ?thesis by simp
qed

lemma digitsValue_128_bit:
  "digitsValue 16 ''ffffffffffffffffffffffffffffffff'' = 340282366920938463463374607431768211455"
  by (simp add: digitsValue_def digitValue_def)

lemma decimalDigits_128_bit:
  "decimalDigits 340282366920938463463374607431768211455 =
     ''340282366920938463463374607431768211455''"
  by (simp add: decimalDigits.simps)

theorem hexToDecimalString_exact_witness:
  "hexToDecimalString (Str ''0xffffffffffffffffffffffffffffffff'') =
     Inr ''340282366920938463463374607431768211455''
   \<and> hexToDecimalStringG (Str ''0xffffffffffffffffffffffffffffffff'') =
     Inr ''340282366920938463463374607431768211455''
   \<and> StringToBigInt ''340282366920938463463374607431768211455'' =
     Some 340282366920938463463374607431768211455"
proof -
  have d: "list_all (isDigit 16) ''ffffffffffffffffffffffffffffffff''"
    by (simp add: isDigit_def digitValue_def)
  show ?thesis
    using hexToDecimalString_exact [of "''ffffffffffffffffffffffffffffffff''"
        "''0xffffffffffffffffffffffffffffffff''", OF _ d]
    by (simp add: digitsValue_128_bit decimalDigits_128_bit)
qed

text \<open>
  C4. On the empty string, \<open>null\<close> and \<open>undefined\<close> the conversions of \<open>src/utils.ts\<close>
  give \<open>0\<close> and \<open>"0"\<close>; on \<open>"0x"\<close> they do not: \<open>hexToDecimal("0x")\<close> is \<open>NaN\<close>, and
  \<open>hexToDecimalString("0x")\<close> and \<open>weiToEther("0x")\<close> raise the SyntaxError of
  \<open>BigInt("0x")\<close>.
\<close>

theorem conversions_on_0x:
  "hexToDecimal (Str []) = Inr (Fin 0) \<and> hexToDecimal Null = Inr (Fin 0)
   \<and> hexToDecimalString (Str []) = Inr ''0'' \<and> hexToDecimalString Null = Inr ''0''
   \<and> weiToEther (Str []) = Inr ''0'' \<and> weiToEther Null = Inr ''0''
   \<and> hexToDecimal (Str ''0x'') = Inr NaN
   \<and> hexToDecimalString (Str ''0x'') = Inl SyntaxError
   \<and> weiToEther (Str ''0x'') = Inl SyntaxError"
  by (simp add: hexToDecimal_def hexToDecimalString_def weiToEther_def replaceMethod_def
      parseInt16_def BigInt_0x)

text \<open>
  The guarded revision does what C4 says: it gives \<open>0\<close> and \<open>"0"\<close> on the empty string,
  \<open>null\<close>, \<open>undefined\<close> and \<open>"0x"\<close>; on a string \<open>hexToDecimalG\<close> never gives \<open>NaN\<close>;
  \<open>hexToDecimalStringG\<close> and \<open>weiToEtherG\<close> never raise, and give \<open>"0"\<close> where
  \<open>BigInt\<close> raises.
\<close>

lemma guarded_conversions_default:
  assumes "hex = Str [] \<or> hex = Null \<or> hex = Undefined \<or> hex = Str ''0x''"
  shows "hexToDecimalG hex = Inr (Fin 0)"
    and "hexToDecimalStringG hex = Inr ''0''"
    and "weiToEtherG hex = Inr ''0''"
  using assms by (auto simp: hexToDecimalG_def hexToDecimalStringG_def weiToEtherG_def)

lemma hexToDecimalG_string:
  "hexToDecimalG (Str s) =
     Inr (if s = [] \<or> s = ''0x'' \<or> parseInt16 (replaceFirst ''0x'' [] s) = NaN then Fin 0
          else parseInt16 (replaceFirst ''0x'' [] s))"
  by (auto simp: hexToDecimalG_def toStringMethod_def Let_def)

lemma hexToDecimalG_string_not_NaN: "hexToDecimalG (Str s) \<noteq> Inr NaN"
  by (simp add: hexToDecimalG_string)

lemma hexToDecimalStringG_total: "\<exists>r. hexToDecimalStringG v = Inr r"
  by (simp add: hexToDecimalStringG_def split: sum.splits)

lemma weiToEtherG_total: "\<exists>r. weiToEtherG v = Inr r"
  by (simp add: weiToEtherG_def split: sum.splits)

lemma weiToEtherG_parse_failure:
  "BigInt v = Inl e \<Longrightarrow> weiToEtherG v = Inr ''0''"
  by (simp add: weiToEtherG_def)

lemma hexToDecimalStringG_parse_failure:
  "BigInt (Str (''0x'' @ replaceFirst ''0x'' [] s)) = Inl e \<Longrightarrow>
   hexToDecimalStringG (Str s) = Inr ''0''"
  by (simp add: hexToDecimalStringG_def toStringMethod_def Let_def)

text \<open>
  C5. \<open>weiToEther("0xde0b6b3a7640000")\<close> is \<open>"1"\<close>, \<open>weiToEther("0x16345785d8a0000")\<close> is
  \<open>"0.1"\<close> and \<open>weiToEther("0x0")\<close> is \<open>"0"\<close>: the BigInt of the string, as a double,
  divided by \<open>1e18\<close> and printed by \<open>Number.prototype.toString\<close>; in both texts of
  \<open>utils.ts\<close>.
\<close>

theorem weiToEther_renders:
  "weiToEther (Str ''0xde0b6b3a7640000'') = Inr ''1''
   \<and> weiToEther (Str ''0x16345785d8a0000'') = Inr ''0.1''
   \<and> weiToEther (Str ''0x0'') = Inr ''0''
   \<and> weiToEtherG (Str ''0xde0b6b3a7640000'') = Inr ''1''
   \<and> weiToEtherG (Str ''0x16345785d8a0000'') = Inr ''0.1''
   \<and> weiToEtherG (Str ''0x0'') = Inr ''0''"
  by (simp add: weiToEther_def weiToEtherG_def BigInt_one_ether BigInt_tenth_ether BigInt_zero
      Number_zero Number_one_ether Number_tenth_ether divideBy_zero divideBy_one_ether
      divideBy_tenth_ether numberToString_zero numberToString_one numberToString_tenth)

theorem weiToEther_renders_witness:
  "weiToEtherG (Str ''0x16345785d8a0000'') = Inr ''0.1''"
  using weiToEther_renders by (elim conjE)

section \<open>The normalizer's gates\<close>

text \<open>
  C9. For every method, \<open>transformResponse\<close> returns a falsy top-level result (\<open>null\<close>,
  \<open>undefined\<close>, \<open>false\<close>, \<open>0\<close>, \<open>NaN\<close>, the empty string) unchanged, before any rule
  of the method applies; so does the guarded revision.
\<close>

theorem transformResponse_falsy:
  assumes "\<not> truthy result"
  shows "transformResponse method result = Inr result
       \<and> transformResponseG method result = Inr result"
  using assms by (simp add: transformResponse_def transformResponseG_def)

theorem transformResponse_falsy_witness:
  "\<not> truthy (Str [])
   \<and> transformResponse ''eth_blockNumber'' (Str []) = Inr (Str [])
   \<and> transformResponseG ''eth_blockNumber'' (Str []) = Inr (Str [])
   \<and> \<not> truthy Null
   \<and> transformResponse ''eth_getTransactionByHash'' Null = Inr Null
   \<and> transformResponseG ''eth_getTransactionByHash'' Null = Inr Null"
  using transformResponse_falsy [of "Str []" "''eth_blockNumber''"]
    transformResponse_falsy [of Null "''eth_getTransactionByHash''"]
  by simp

text \<open>
  C8. For a method other than \<open>eth_getBalance\<close>, \<open>eth_getTransactionByHash\<close> and
  \<open>eth_getLogs\<close>, \<open>validateParams\<close> checks nothing and raises nothing, whatever the
  parameters; for a method outside the eight that the normalizer knows,
  \<open>transformResponse\<close> returns the raw result unchanged (in both texts of \<open>utils.ts\<close>).
\<close>

theorem unrecognised_method_passes:
  "(method \<notin> {''eth_getBalance'', ''eth_getTransactionByHash'', ''eth_getLogs''}
      \<longrightarrow> validateParams method params = Inr ())
   \<and> (method \<notin> {''eth_blockNumber'', ''eth_gasPrice'', ''eth_estimateGas'', ''eth_getBalance'',
                  ''eth_getBlockByNumber'', ''eth_getBlockByHash'',
                  ''eth_getTransactionByHash'', ''eth_getTransactionReceipt''}
      \<longrightarrow> transformResponse method result = Inr result
        \<and> transformResponseG method result = Inr result)"
  by (simp add: validateParams_def transformResponse_def transformResponseG_def)

theorem unrecognised_method_passes_witness:
  "''net_version'' \<notin> {''eth_getBalance'', ''eth_getTransactionByHash'', ''eth_getLogs''}
   \<and> validateParams ''net_version'' (Some [Str ''anything'', Null]) = Inr ()
   \<and> ''net_version'' \<notin> {''eth_blockNumber'', ''eth_gasPrice'', ''eth_estimateGas'',
         ''eth_getBalance'', ''eth_getBlockByNumber'', ''eth_getBlockByHash'',
         ''eth_getTransactionByHash'', ''eth_getTransactionReceipt''}
   \<and> transformResponse ''net_version'' (Str ''0x1'') = Inr (Str ''0x1'')
   \<and> transformResponseG ''net_version'' (Str ''0x1'') = Inr (Str ''0x1'')"
  using unrecognised_method_passes
          [of "''net_version''" "Some [Str ''anything'', Null]" "Str ''0x1''"]
  by simp

section \<open>The transaction transform\<close>

lemma transformTransaction_With:
  "transformTransaction = transformWith hexToDecimal hexToDecimalString weiToEther"
  by (rule ext) (simp add: transformTransaction_def transformWith_def)

lemma transformTransactionG_With:
  "transformTransactionG = transformWith hexToDecimalG hexToDecimalStringG weiToEtherG"
  by (rule ext) (simp add: transformTransactionG_def transformWith_def)

lemma transformWith_Inr:
  assumes "truthy tx" "typeof tx = ''object''"
    and "transformWith h hs w tx = Inr out"
  obtains blockNumber transactionIndex gas gasPrice nonce wei ether
      gasUsed cumulativeGasUsed effectiveGasPrice
    where "(if truthy (get tx ''blockNumber'')
                 then numberResult (h (get tx ''blockNumber'')) else Inr Null) = Inr blockNumber"
      and "(if truthy (get tx ''transactionIndex'')
                 then numberResult (h (get tx ''transactionIndex'')) else Inr Null) = Inr transactionIndex"
      and "h (get tx ''gas'') = Inr gas"
      and "(if truthy (get tx ''gasPrice'')
                 then numberResult (h (get tx ''gasPrice'')) else Inr Null) = Inr gasPrice"
      and "h (get tx ''nonce'') = Inr nonce"
      and "hs (get tx ''value'') = Inr wei"
      and "w (get tx ''value'') = Inr ether"
      and "andAlso (get tx ''gasUsed'')
                   (andThen (h (get tx ''gasUsed'')) (\<lambda>n.
                    Inr (Obj (fmap_of_list [(''gasUsed'', Num n)])))) = Inr gasUsed"
      and "andAlso (get tx ''cumulativeGasUsed'')
                   (andThen (h (get tx ''cumulativeGasUsed'')) (\<lambda>n.
                    Inr (Obj (fmap_of_list [(''cumulativeGasUsed'', Num n)])))) = Inr cumulativeGasUsed"
      and "andAlso (get tx ''effectiveGasPrice'')
                   (andThen (h (get tx ''effectiveGasPrice'')) (\<lambda>n.
                    Inr (Obj (fmap_of_list [(''effectiveGasPrice'', Num n)])))) = Inr effectiveGasPrice"
      and "out = Obj
          (spread effectiveGasPrice
          (spread cumulativeGasUsed
          (spread gasUsed
          (fmupd ''value'' (Obj (fmap_of_list [(''wei'', Str wei), (''ether'', Str ether)]))
          (fmupd ''nonce'' (Num nonce)
          (fmupd ''gasPrice'' gasPrice
          (fmupd ''gas'' (Num gas)
          (fmupd ''transactionIndex'' transactionIndex
          (fmupd ''blockNumber'' blockNumber
          (spread tx fmempty))))))))))"
proof -
  from assms have "transformWith h hs w tx = Inr out" "\<not> (\<not> truthy tx \<or> typeof tx \<noteq> ''object'')"
    by simp_all
  then show thesis
    unfolding transformWith_def if_not_P [OF \<open>\<not> (\<not> truthy tx \<or> typeof tx \<noteq> ''object'')\<close>]
    by (elim andThenE) (rule that, assumption+, blast)
qed

lemma transformWith_policy:
  assumes obj: "truthy tx" "typeof tx = ''object''"
    and out: "transformWith h hs w tx = Inr out"
  shows "fieldPolicy h hs w tx out"
proof -
  from obj out obtain blockNumber transactionIndex gas gasPrice nonce wei ether
      gasUsed cumulativeGasUsed effectiveGasPrice
    where bn: "(if truthy (get tx ''blockNumber'')
                 then numberResult (h (get tx ''blockNumber'')) else Inr Null) = Inr blockNumber"
      and ti: "(if truthy (get tx ''transactionIndex'')
                 then numberResult (h (get tx ''transactionIndex'')) else Inr Null) = Inr transactionIndex"
      and g: "h (get tx ''gas'') = Inr gas"
      and gp: "(if truthy (get tx ''gasPrice'')
                 then numberResult (h (get tx ''gasPrice'')) else Inr Null) = Inr gasPrice"
      and n: "h (get tx ''nonce'') = Inr nonce"
      and we: "hs (get tx ''value'') = Inr wei"
      and et: "w (get tx ''value'') = Inr ether"
      and gu: "andAlso (get tx ''gasUsed'')
                   (andThen (h (get tx ''gasUsed'')) (\<lambda>n.
                    Inr (Obj (fmap_of_list [(''gasUsed'', Num n)])))) = Inr gasUsed"
      and cg: "andAlso (get tx ''cumulativeGasUsed'')
                   (andThen (h (get tx ''cumulativeGasUsed'')) (\<lambda>n.
                    Inr (Obj (fmap_of_list [(''cumulativeGasUsed'', Num n)])))) = Inr cumulativeGasUsed"
      and eg: "andAlso (get tx ''effectiveGasPrice'')
                   (andThen (h (get tx ''effectiveGasPrice'')) (\<lambda>n.
                    Inr (Obj (fmap_of_list [(''effectiveGasPrice'', Num n)])))) = Inr effectiveGasPrice"
      and o: "out = Obj
          (spread effectiveGasPrice
          (spread cumulativeGasUsed
          (spread gasUsed
          (fmupd ''value'' (Obj (fmap_of_list [(''wei'', Str wei), (''ether'', Str ether)]))
          (fmupd ''nonce'' (Num nonce)
          (fmupd ''gasPrice'' gasPrice
          (fmupd ''gas'' (Num gas)
          (fmupd ''transactionIndex'' transactionIndex
          (fmupd ''blockNumber'' blockNumber
          (spread tx fmempty))))))))))"
    by (rule transformWith_Inr)
  from guarded_spread [of "get tx ''gasUsed''" h "''gasUsed''" gasUsed, OF gu]
  obtain n1 where G1: "ownProperties gasUsed =
        (if truthy (get tx ''gasUsed'') then fmupd ''gasUsed'' (Num n1) fmempty else fmempty)"
      and H1: "truthy (get tx ''gasUsed'') \<Longrightarrow> h (get tx ''gasUsed'') = Inr n1"
    by (cases "truthy (get tx ''gasUsed'')") auto
  from guarded_spread [of "get tx ''cumulativeGasUsed''" h "''cumulativeGasUsed''"
      cumulativeGasUsed, OF cg]
  obtain n2 where G2: "ownProperties cumulativeGasUsed =
        (if truthy (get tx ''cumulativeGasUsed'')
         then fmupd ''cumulativeGasUsed'' (Num n2) fmempty else fmempty)"
      and H2: "truthy (get tx ''cumulativeGasUsed'') \<Longrightarrow> h (get tx ''cumulativeGasUsed'') = Inr n2"
    by (cases "truthy (get tx ''cumulativeGasUsed'')") auto
  from guarded_spread [of "get tx ''effectiveGasPrice''" h "''effectiveGasPrice''"
      effectiveGasPrice, OF eg]
  obtain n3 where G3: "ownProperties effectiveGasPrice =
        (if truthy (get tx ''effectiveGasPrice'')
         then fmupd ''effectiveGasPrice'' (Num n3) fmempty else fmempty)"
      and H3: "truthy (get tx ''effectiveGasPrice'') \<Longrightarrow> h (get tx ''effectiveGasPrice'') = Inr n3"
    by (cases "truthy (get tx ''effectiveGasPrice'')") auto
  note ns = nullable_field [of "get tx ''blockNumber''" h blockNumber, OF bn]
    nullable_field [of "get tx ''transactionIndex''" h transactionIndex, OF ti]
    nullable_field [of "get tx ''gasPrice''" h gasPrice, OF gp]
  have L: "fmlookup (ownProperties out) k =
     (if k = ''effectiveGasPrice'' \<and> truthy (get tx ''effectiveGasPrice'') then Some (Num n3)
      else if k = ''cumulativeGasUsed'' \<and> truthy (get tx ''cumulativeGasUsed'') then Some (Num n2)
      else if k = ''gasUsed'' \<and> truthy (get tx ''gasUsed'') then Some (Num n1)
      else if k = ''value''
        then Some (Obj (fmap_of_list [(''wei'', Str wei), (''ether'', Str ether)]))
      else if k = ''nonce'' then Some (Num nonce)
      else if k = ''gasPrice'' then Some gasPrice
      else if k = ''gas'' then Some (Num gas)
      else if k = ''transactionIndex'' then Some transactionIndex
      else if k = ''blockNumber'' then Some blockNumber
      else fmlookup (ownProperties tx) k)" for k
    by (simp add: o spread_def G1 G2 G3)
  have O: "get out k = (case fmlookup (ownProperties out) k of Some x \<Rightarrow> x | None \<Rightarrow> Undefined)" for k
    by (simp add: o)
  have Lbn: "fmlookup (ownProperties out) ''blockNumber'' = Some blockNumber"
    and Lti: "fmlookup (ownProperties out) ''transactionIndex'' = Some transactionIndex"
    and Lgp: "fmlookup (ownProperties out) ''gasPrice'' = Some gasPrice"
    and Lg: "fmlookup (ownProperties out) ''gas'' = Some (Num gas)"
    and Ln: "fmlookup (ownProperties out) ''nonce'' = Some (Num nonce)"
    and Lv: "fmlookup (ownProperties out) ''value'' =
              Some (Obj (fmap_of_list [(''wei'', Str wei), (''ether'', Str ether)]))"
    and Lgu: "fmlookup (ownProperties out) ''gasUsed'' =
              (if truthy (get tx ''gasUsed'') then Some (Num n1)
               else fmlookup (ownProperties tx) ''gasUsed'')"
    and Lcg: "fmlookup (ownProperties out) ''cumulativeGasUsed'' =
              (if truthy (get tx ''cumulativeGasUsed'') then Some (Num n2)
               else fmlookup (ownProperties tx) ''cumulativeGasUsed'')"
    and Leg: "fmlookup (ownProperties out) ''effectiveGasPrice'' =
              (if truthy (get tx ''effectiveGasPrice'') then Some (Num n3)
               else fmlookup (ownProperties tx) ''effectiveGasPrice'')"
    by (simp_all add: L)
  have nullable: "(truthy (get tx k) \<longrightarrow> numberResult (h (get tx k)) = Inr (get out k))
         \<and> (\<not> truthy (get tx k) \<longrightarrow> get out k = Null)"
    if "k \<in> {''blockNumber'', ''transactionIndex'', ''gasPrice''}" for k
  proof -
    from that consider "k = ''blockNumber''" | "k = ''transactionIndex''" | "k = ''gasPrice''"
      by blast
    then show ?thesis
    proof cases
      case 1
      then show ?thesis using ns(1) by (simp only: O Lbn option.case) blast?
    next
      case 2
      then show ?thesis using ns(2) by (simp only: O Lti option.case) blast?
    next
      case 3
      then show ?thesis using ns(3) by (simp only: O Lgp option.case) blast?
    qed
  qed
  have always: "numberResult (h (get tx k)) = Inr (get out k)" if "k \<in> {''gas'', ''nonce''}" for k
  proof -
    from that consider "k = ''gas''" | "k = ''nonce''" by blast
    then show ?thesis
    proof cases
      case 1
      then show ?thesis by (simp only: O Lg option.case g numberResult_def andThen_Inr)
    next
      case 2
      then show ?thesis by (simp only: O Ln option.case n numberResult_def andThen_Inr)
    qed
  qed
  have guarded: "(truthy (get tx k) \<longrightarrow> numberResult (h (get tx k)) = Inr (get out k))
         \<and> (\<not> truthy (get tx k) \<longrightarrow>
              fmlookup (ownProperties out) k = fmlookup (ownProperties tx) k)"
    if "k \<in> {''gasUsed'', ''cumulativeGasUsed'', ''effectiveGasPrice''}" for k
  proof -
    from that consider "k = ''gasUsed''" | "k = ''cumulativeGasUsed''" | "k = ''effectiveGasPrice''"
      by blast
    then show ?thesis
    proof cases
      case 1
      show ?thesis
      proof (cases "truthy (get tx ''gasUsed'')")
        case True
        with 1 H1 show ?thesis
          by (simp only: O Lgu if_True option.case numberResult_def andThen_Inr simp_thms)
      next
        case False
        with 1 show ?thesis by (simp only: Lgu if_False simp_thms)
      qed
    next
      case 2
      show ?thesis
      proof (cases "truthy (get tx ''cumulativeGasUsed'')")
        case True
        with 2 H2 show ?thesis
          by (simp only: O Lcg if_True option.case numberResult_def andThen_Inr simp_thms)
      next
        case False
        with 2 show ?thesis by (simp only: Lcg if_False simp_thms)
      qed
    next
      case 3
      show ?thesis
      proof (cases "truthy (get tx ''effectiveGasPrice'')")
        case True
        with 3 H3 show ?thesis
          by (simp only: O Leg if_True option.case numberResult_def andThen_Inr simp_thms)
      next
        case False
        with 3 show ?thesis by (simp only: Leg if_False simp_thms)
      qed
    qed
  qed
  have val: "\<exists>wei ether. hs (get tx ''value'') = Inr wei \<and> w (get tx ''value'') = Inr ether
           \<and> get out ''value'' = Obj (fmap_of_list [(''wei'', Str wei), (''ether'', Str ether)])"
    using we et by (simp only: O Lv option.case) blast?
  have other: "fmlookup (ownProperties out) k = fmlookup (ownProperties tx) k"
    if "k \<notin> {''blockNumber'', ''transactionIndex'', ''gas'', ''gasPrice'', ''nonce'',
                    ''value'', ''gasUsed'', ''cumulativeGasUsed'', ''effectiveGasPrice''}" for k
    using that by (simp add: L)
  show ?thesis
    unfolding fieldPolicy_def
    using nullable always guarded val other by blast
qed

lemma conversionsReturn_iff:
  "conversionsReturn h hs w tx \<longleftrightarrow>
     (truthy (get tx ''blockNumber'') \<longrightarrow> \<not> isl (h (get tx ''blockNumber'')))
   \<and> (truthy (get tx ''transactionIndex'') \<longrightarrow> \<not> isl (h (get tx ''transactionIndex'')))
   \<and> (truthy (get tx ''gasPrice'') \<longrightarrow> \<not> isl (h (get tx ''gasPrice'')))
   \<and> (truthy (get tx ''gasUsed'') \<longrightarrow> \<not> isl (h (get tx ''gasUsed'')))
   \<and> (truthy (get tx ''cumulativeGasUsed'') \<longrightarrow> \<not> isl (h (get tx ''cumulativeGasUsed'')))
   \<and> (truthy (get tx ''effectiveGasPrice'') \<longrightarrow> \<not> isl (h (get tx ''effectiveGasPrice'')))
   \<and> \<not> isl (h (get tx ''gas'')) \<and> \<not> isl (h (get tx ''nonce''))
   \<and> \<not> isl (hs (get tx ''value'')) \<and> \<not> isl (w (get tx ''value''))"
  by (simp add: conversionsReturn_def)

lemma transformWith_returns:
  assumes obj: "truthy tx" "typeof tx = ''object''"
  shows "\<not> isl (transformWith h hs w tx) \<longleftrightarrow> conversionsReturn h hs w tx"
proof
  assume "\<not> isl (transformWith h hs w tx)"
  then obtain out where out: "transformWith h hs w tx = Inr out"
    unfolding not_isl_iff by (rule exE)
  show "conversionsReturn h hs w tx"
  proof (rule transformWith_Inr [OF obj out], goal_cases)
    case (1 blockNumber transactionIndex gas gasPrice nonce wei ether
        gasUsed cumulativeGasUsed effectiveGasPrice)
    have "truthy (get tx ''blockNumber'') \<longrightarrow> \<not> isl (h (get tx ''blockNumber''))"
      using 1(1) nullable_returns [of "get tx ''blockNumber''" h] by blast
    moreover have "truthy (get tx ''transactionIndex'') \<longrightarrow> \<not> isl (h (get tx ''transactionIndex''))"
      using 1(2) nullable_returns [of "get tx ''transactionIndex''" h] by blast
    moreover have "truthy (get tx ''gasPrice'') \<longrightarrow> \<not> isl (h (get tx ''gasPrice''))"
      using 1(4) nullable_returns [of "get tx ''gasPrice''" h] by blast
    moreover have "truthy (get tx ''gasUsed'') \<longrightarrow> \<not> isl (h (get tx ''gasUsed''))"
      using 1(8) guarded_returns [of "get tx ''gasUsed''" h "''gasUsed''"] by blast
    moreover have "truthy (get tx ''cumulativeGasUsed'') \<longrightarrow> \<not> isl (h (get tx ''cumulativeGasUsed''))"
      using 1(9) guarded_returns [of "get tx ''cumulativeGasUsed''" h "''cumulativeGasUsed''"] by blast
    moreover have "truthy (get tx ''effectiveGasPrice'') \<longrightarrow> \<not> isl (h (get tx ''effectiveGasPrice''))"
      using 1(10) guarded_returns [of "get tx ''effectiveGasPrice''" h "''effectiveGasPrice''"] by blast
    moreover have "\<not> isl (h (get tx ''gas''))" "\<not> isl (h (get tx ''nonce''))"
      "\<not> isl (hs (get tx ''value''))" "\<not> isl (w (get tx ''value''))"
      using 1(3,5,6,7) by simp_all
    ultimately show ?case
      unfolding conversionsReturn_iff by blast
  qed
next
  assume "conversionsReturn h hs w tx"
  then have c: "truthy (get tx ''blockNumber'') \<longrightarrow> \<not> isl (h (get tx ''blockNumber''))"
    "truthy (get tx ''transactionIndex'') \<longrightarrow> \<not> isl (h (get tx ''transactionIndex''))"
    "truthy (get tx ''gasPrice'') \<longrightarrow> \<not> isl (h (get tx ''gasPrice''))"
    "truthy (get tx ''gasUsed'') \<longrightarrow> \<not> isl (h (get tx ''gasUsed''))"
    "truthy (get tx ''cumulativeGasUsed'') \<longrightarrow> \<not> isl (h (get tx ''cumulativeGasUsed''))"
    "truthy (get tx ''effectiveGasPrice'') \<longrightarrow> \<not> isl (h (get tx ''effectiveGasPrice''))"
    "\<not> isl (h (get tx ''gas''))" "\<not> isl (h (get tx ''nonce''))"
    "\<not> isl (hs (get tx ''value''))" "\<not> isl (w (get tx ''value''))"
    unfolding conversionsReturn_iff by blast+
  from c(1) obtain blockNumber where bn: "(if truthy (get tx ''blockNumber'')
       then numberResult (h (get tx ''blockNumber'')) else Inr Null) = Inr blockNumber"
    using nullable_returns [of "get tx ''blockNumber''" h] by blast
  from c(2) obtain transactionIndex where ti: "(if truthy (get tx ''transactionIndex'')
       then numberResult (h (get tx ''transactionIndex'')) else Inr Null) = Inr transactionIndex"
    using nullable_returns [of "get tx ''transactionIndex''" h] by blast
  from c(3) obtain gasPrice where gp: "(if truthy (get tx ''gasPrice'')
       then numberResult (h (get tx ''gasPrice'')) else Inr Null) = Inr gasPrice"
    using nullable_returns [of "get tx ''gasPrice''" h] by blast
  from c(4) obtain gasUsed where gu: "andAlso (get tx ''gasUsed'')
       (andThen (h (get tx ''gasUsed'')) (\<lambda>n.
        Inr (Obj (fmap_of_list [(''gasUsed'', Num n)])))) = Inr gasUsed"
    using guarded_returns [of "get tx ''gasUsed''" h "''gasUsed''"] by blast
  from c(5) obtain cumulativeGasUsed where cg: "andAlso (get tx ''cumulativeGasUsed'')
       (andThen (h (get tx ''cumulativeGasUsed'')) (\<lambda>n.
        Inr (Obj (fmap_of_list [(''cumulativeGasUsed'', Num n)])))) = Inr cumulativeGasUsed"
    using guarded_returns [of "get tx ''cumulativeGasUsed''" h "''cumulativeGasUsed''"] by blast
  from c(6) obtain effectiveGasPrice where eg: "andAlso (get tx ''effectiveGasPrice'')
       (andThen (h (get tx ''effectiveGasPrice'')) (\<lambda>n.
        Inr (Obj (fmap_of_list [(''effectiveGasPrice'', Num n)])))) = Inr effectiveGasPrice"
    using guarded_returns [of "get tx ''effectiveGasPrice''" h "''effectiveGasPrice''"] by blast
  from c(7-10) obtain gas nonce wei ether
    where g: "h (get tx ''gas'') = Inr gas" and n: "h (get tx ''nonce'') = Inr nonce"
      and we: "hs (get tx ''value'') = Inr wei" and et: "w (get tx ''value'') = Inr ether"
    unfolding not_isl_iff by blast
  have "\<not> (\<not> truthy tx \<or> typeof tx \<noteq> ''object'')" using obj by simp
  then have "\<exists>out. transformWith h hs w tx = Inr out"
    unfolding transformWith_def
    by (simp only: bn ti g gp n we et gu cg eg andThen_Inr if_False) blast
  then show "\<not> isl (transformWith h hs w tx)"
    unfolding not_isl_iff .
qed

lemma transformTransaction_pending_steps:
  "transformTransaction pendingTransaction =
     Inr (Obj
          (fmupd ''value'' (Obj (fmap_of_list [(''wei'', Str ''0''), (''ether'', Str ''0'')]))
          (fmupd ''nonce'' (Num (Fin 0))
          (fmupd ''gasPrice'' Null
          (fmupd ''gas'' (Num (Fin 21000))
          (fmupd ''transactionIndex'' Null
          (fmupd ''blockNumber'' Null
          (fmap_of_list
     [(''blockNumber'', Null), (''transactionIndex'', Null), (''gas'', Str ''0x5208''),
      (''gasPrice'', Null), (''nonce'', Str ''0x0''), (''value'', Str ''0x0'')]))))))))"
  by (simp add: transformTransaction_def pendingTransaction_def hexToDecimal_21000 hexToDecimal_zero
      hexToDecimalString_zero weiToEther_zero andAlso_def spread_def ownProperties_def)

lemma pending_object:
  "fmupd ''value'' (Obj (fmap_of_list [(''wei'', Str ''0''), (''ether'', Str ''0'')]))
          (fmupd ''nonce'' (Num (Fin 0))
          (fmupd ''gasPrice'' Null
          (fmupd ''gas'' (Num (Fin 21000))
          (fmupd ''transactionIndex'' Null
          (fmupd ''blockNumber'' Null
          (fmap_of_list
     [(''blockNumber'', Null), (''transactionIndex'', Null), (''gas'', Str ''0x5208''),
      (''gasPrice'', Null), (''nonce'', Str ''0x0''), (''value'', Str ''0x0'')])))))) =
   fmap_of_list
     [(''blockNumber'', Null), (''transactionIndex'', Null), (''gasPrice'', Null),
      (''gas'', Num (Fin 21000)), (''nonce'', Num (Fin 0)),
      (''value'', Obj (fmap_of_list [(''wei'', Str ''0''), (''ether'', Str ''0'')]))]"
  by code_simp

lemma transformTransaction_pending:
  "transformTransaction pendingTransaction =
     Inr (Obj (fmap_of_list
     [(''blockNumber'', Null), (''transactionIndex'', Null), (''gasPrice'', Null),
      (''gas'', Num (Fin 21000)), (''nonce'', Num (Fin 0)),
      (''value'', Obj (fmap_of_list [(''wei'', Str ''0''), (''ether'', Str ''0'')]))]))"
  by (simp only: transformTransaction_pending_steps pending_object)

lemma transformTransactionG_pending_steps:
  "transformTransactionG pendingTransaction =
     Inr (Obj
          (fmupd ''value'' (Obj (fmap_of_list [(''wei'', Str ''0''), (''ether'', Str ''0'')]))
          (fmupd ''nonce'' (Num (Fin 0))
          (fmupd ''gasPrice'' Null
          (fmupd ''gas'' (Num (Fin 21000))
          (fmupd ''transactionIndex'' Null
          (fmupd ''blockNumber'' Null
          (fmap_of_list
     [(''blockNumber'', Null), (''transactionIndex'', Null), (''gas'', Str ''0x5208''),
      (''gasPrice'', Null), (''nonce'', Str ''0x0''), (''value'', Str ''0x0'')]))))))))"
  by (simp add: transformTransactionG_def pendingTransaction_def hexToDecimalG_21000
      hexToDecimalG_zero hexToDecimalStringG_zero weiToEtherG_zero andAlso_def spread_def
      ownProperties_def)

lemma transformTransactionG_pending:
  "transformTransactionG pendingTransaction =
     Inr (Obj (fmap_of_list
     [(''blockNumber'', Null), (''transactionIndex'', Null), (''gasPrice'', Null),
      (''gas'', Num (Fin 21000)), (''nonce'', Num (Fin 0)),
      (''value'', Obj (fmap_of_list [(''wei'', Str ''0''), (''ether'', Str ''0'')]))]))"
  by (simp only: transformTransactionG_pending_steps pending_object)

lemma transformTransaction_mined_steps:
  "transformTransaction minedTransaction =
     Inr (Obj
          (fmupd ''gasUsed'' (Num (Fin 21000))
          (fmupd ''value'' (Obj (fmap_of_list
              [(''wei'', Str ''1000000000000000000''), (''ether'', Str ''1'')]))
          (fmupd ''nonce'' (Num (Fin 0))
          (fmupd ''gasPrice'' (Num (Fin 20000000000))
          (fmupd ''gas'' (Num (Fin 21000))
          (fmupd ''transactionIndex'' (Num (Fin 1))
          (fmupd ''blockNumber'' (Num (Fin 10))
          (fmap_of_list
     [(''hash'', Str ''0xabc''), (''blockNumber'', Str ''0xa''), (''transactionIndex'', Str ''0x1''),
      (''gas'', Str ''0x5208''), (''gasPrice'', Str ''0x4a817c800''), (''nonce'', Str ''0x0''),
      (''value'', Str ''0xde0b6b3a7640000''), (''gasUsed'', Str ''0x5208'')])))))))))"
  by (simp add: transformTransaction_def minedTransaction_def hexToDecimal_Str
      parseInt16_a parseInt16_1 parseInt16_5208 parseInt16_4a817c800 parseInt16_0
      hexToDecimalString_one_ether weiToEther_one_ether andAlso_def spread_def numberResult_def
      ownProperties_def)

lemma mined_object:
  "fmupd ''gasUsed'' (Num (Fin 21000))
          (fmupd ''value'' (Obj (fmap_of_list
              [(''wei'', Str ''1000000000000000000''), (''ether'', Str ''1'')]))
          (fmupd ''nonce'' (Num (Fin 0))
          (fmupd ''gasPrice'' (Num (Fin 20000000000))
          (fmupd ''gas'' (Num (Fin 21000))
          (fmupd ''transactionIndex'' (Num (Fin 1))
          (fmupd ''blockNumber'' (Num (Fin 10))
          (fmap_of_list
     [(''hash'', Str ''0xabc''), (''blockNumber'', Str ''0xa''), (''transactionIndex'', Str ''0x1''),
      (''gas'', Str ''0x5208''), (''gasPrice'', Str ''0x4a817c800''), (''nonce'', Str ''0x0''),
      (''value'', Str ''0xde0b6b3a7640000''), (''gasUsed'', Str ''0x5208'')]))))))) =
   fmap_of_list
     [(''hash'', Str ''0xabc''), (''blockNumber'', Num (Fin 10)), (''transactionIndex'', Num (Fin 1)),
      (''gas'', Num (Fin 21000)), (''gasPrice'', Num (Fin 20000000000)), (''nonce'', Num (Fin 0)),
      (''value'', Obj (fmap_of_list
              [(''wei'', Str ''1000000000000000000''), (''ether'', Str ''1'')])),
      (''gasUsed'', Num (Fin 21000))]"
  by code_simp

lemma transformTransaction_mined:
  "transformTransaction minedTransaction =
     Inr (Obj (fmap_of_list
     [(''hash'', Str ''0xabc''), (''blockNumber'', Num (Fin 10)), (''transactionIndex'', Num (Fin 1)),
      (''gas'', Num (Fin 21000)), (''gasPrice'', Num (Fin 20000000000)), (''nonce'', Num (Fin 0)),
      (''value'', Obj (fmap_of_list
              [(''wei'', Str ''1000000000000000000''), (''ether'', Str ''1'')])),
      (''gasUsed'', Num (Fin 21000))]))"
  by (simp only: transformTransaction_mined_steps mined_object)

text \<open>
  C1, as the claim states it: \<open>gasUsed\<close>, \<open>cumulativeGasUsed\<close> and
  \<open>effectiveGasPrice\<close> would be omitted from the output whenever they are not truthy in
  the source. A receipt whose \<open>gasUsed\<close> is \<open>null\<close> keeps \<open>gasUsed: null\<close>: the spread
  \<open>...tx\<close> has copied it, and only an absent field is absent from the output.
\<close>

theorem falsy_gasUsed_is_kept:
  "transformTransaction (Obj (fmap_of_list [(''gasUsed'', Null)])) =
     Inr (Obj (fmap_of_list
       [(''gasUsed'', Null), (''blockNumber'', Null), (''transactionIndex'', Null),
        (''gas'', Num (Fin 0)), (''gasPrice'', Null), (''nonce'', Num (Fin 0)),
        (''value'', Obj (fmap_of_list [(''wei'', Str ''0''), (''ether'', Str ''0'')]))]))
   \<and> transformTransactionG (Obj (fmap_of_list [(''gasUsed'', Null)])) =
     Inr (Obj (fmap_of_list
       [(''gasUsed'', Null), (''blockNumber'', Null), (''transactionIndex'', Null),
        (''gas'', Num (Fin 0)), (''gasPrice'', Null), (''nonce'', Num (Fin 0)),
        (''value'', Obj (fmap_of_list [(''wei'', Str ''0''), (''ether'', Str ''0'')]))]))"
  by code_simp

text \<open>
  C1, amended. For every object \<open>tx\<close> (a truthy value whose \<open>typeof\<close> is \<open>'object'\<close>)
  the transaction transform, which \<open>transformResponse\<close> applies for
  \<open>eth_getTransactionByHash\<close> and \<open>eth_getTransactionReceipt\<close>, returns exactly when the
  conversions it calls return, and its output follows the policy field by field:
  \<open>blockNumber\<close>, \<open>transactionIndex\<close> and \<open>gasPrice\<close> are \<open>hexToDecimal\<close> of the source
  when truthy there and \<open>null\<close> otherwise; \<open>gas\<close> and \<open>nonce\<close> are always \<open>hexToDecimal\<close>
  of the source; \<open>value\<close> is \<open>{wei: hexToDecimalString(value), ether: weiToEther(value)}\<close>;
  \<open>gasUsed\<close>, \<open>cumulativeGasUsed\<close> and \<open>effectiveGasPrice\<close> are \<open>hexToDecimal\<close> of the
  source when truthy there, and otherwise are as in the source: omitted when absent,
  copied when present and falsy; every other field is copied unchanged. Any other input
  is returned unchanged. In both texts of \<open>utils.ts\<close>.
\<close>

theorem transformTransaction_policy:
  "(truthy tx \<and> typeof tx = ''object'' \<longrightarrow>
      transformResponse ''eth_getTransactionByHash'' tx = transformTransaction tx
    \<and> transformResponse ''eth_getTransactionReceipt'' tx = transformTransaction tx
    \<and> (\<not> isl (transformTransaction tx) \<longleftrightarrow>
         conversionsReturn hexToDecimal hexToDecimalString weiToEther tx)
    \<and> (\<forall>out. transformTransaction tx = Inr out \<longrightarrow>
         fieldPolicy hexToDecimal hexToDecimalString weiToEther tx out)
    \<and> (\<not> isl (transformTransactionG tx) \<longleftrightarrow>
         conversionsReturn hexToDecimalG hexToDecimalStringG weiToEtherG tx)
    \<and> (\<forall>out. transformTransactionG tx = Inr out \<longrightarrow>
         fieldPolicy hexToDecimalG hexToDecimalStringG weiToEtherG tx out))
   \<and> (\<not> (truthy tx \<and> typeof tx = ''object'') \<longrightarrow>
      transformTransaction tx = Inr tx \<and> transformTransactionG tx = Inr tx)"
proof (intro conjI impI allI)
  assume "\<not> (truthy tx \<and> typeof tx = ''object'')"
  then show "transformTransaction tx = Inr tx" "transformTransactionG tx = Inr tx"
    by (auto simp: transformTransaction_def transformTransactionG_def)
next
  assume obj: "truthy tx \<and> typeof tx = ''object''"
  then show "transformResponse ''eth_getTransactionByHash'' tx = transformTransaction tx"
    "transformResponse ''eth_getTransactionReceipt'' tx = transformTransaction tx"
    by (simp_all add: transformResponse_def)
  from obj show "\<not> isl (transformTransaction tx) \<longleftrightarrow>
      conversionsReturn hexToDecimal hexToDecimalString weiToEther tx"
    unfolding transformTransaction_With by (intro transformWith_returns) simp_all
  from obj show "\<not> isl (transformTransactionG tx) \<longleftrightarrow>
      conversionsReturn hexToDecimalG hexToDecimalStringG weiToEtherG tx"
    unfolding transformTransactionG_With by (intro transformWith_returns) simp_all
next
  fix out
  assume obj: "truthy tx \<and> typeof tx = ''object''"
    and out: "transformTransaction tx = Inr out"
  then show "fieldPolicy hexToDecimal hexToDecimalString weiToEther tx out"
    unfolding transformTransaction_With by (intro transformWith_policy) simp_all
next
  fix out
  assume obj: "truthy tx \<and> typeof tx = ''object''"
    and out: "transformTransactionG tx = Inr out"
  then show "fieldPolicy hexToDecimalG hexToDecimalStringG weiToEtherG tx out"
    unfolding transformTransactionG_With by (intro transformWith_policy) simp_all
qed

theorem transformTransaction_policy_witness:
  "truthy pendingTransaction \<and> typeof pendingTransaction = ''object''
   \<and> transformTransaction pendingTransaction =
       Inr (Obj (fmap_of_list
         [(''blockNumber'', Null), (''transactionIndex'', Null), (''gasPrice'', Null),
          (''gas'', Num (Fin 21000)), (''nonce'', Num (Fin 0)),
          (''value'', Obj (fmap_of_list [(''wei'', Str ''0''), (''ether'', Str ''0'')]))]))
   \<and> conversionsReturn hexToDecimal hexToDecimalString weiToEther pendingTransaction
   \<and> fieldPolicy hexToDecimal hexToDecimalString weiToEther pendingTransaction
       (Obj (fmap_of_list
         [(''blockNumber'', Null), (''transactionIndex'', Null), (''gasPrice'', Null),
          (''gas'', Num (Fin 21000)), (''nonce'', Num (Fin 0)),
          (''value'', Obj (fmap_of_list [(''wei'', Str ''0''), (''ether'', Str ''0'')]))]))
   \<and> transformTransactionG pendingTransaction = transformTransaction pendingTransaction
   \<and> truthy minedTransaction \<and> typeof minedTransaction = ''object''
   \<and> transformTransaction minedTransaction =
       Inr (Obj (fmap_of_list
         [(''hash'', Str ''0xabc''), (''blockNumber'', Num (Fin 10)),
          (''transactionIndex'', Num (Fin 1)), (''gas'', Num (Fin 21000)),
          (''gasPrice'', Num (Fin 20000000000)), (''nonce'', Num (Fin 0)),
          (''value'', Obj (fmap_of_list
              [(''wei'', Str ''1000000000000000000''), (''ether'', Str ''1'')])),
          (''gasUsed'', Num (Fin 21000))]))
   \<and> conversionsReturn hexToDecimal hexToDecimalString weiToEther minedTransaction
   \<and> fieldPolicy hexToDecimal hexToDecimalString weiToEther minedTransaction
       (Obj (fmap_of_list
         [(''hash'', Str ''0xabc''), (''blockNumber'', Num (Fin 10)),
          (''transactionIndex'', Num (Fin 1)), (''gas'', Num (Fin 21000)),
          (''gasPrice'', Num (Fin 20000000000)), (''nonce'', Num (Fin 0)),
          (''value'', Obj (fmap_of_list
              [(''wei'', Str ''1000000000000000000''), (''ether'', Str ''1'')])),
          (''gasUsed'', Num (Fin 21000))]))
   \<and> transformTransaction Null = Inr Null
   \<and> transformTransaction (Str ''0xabc'') = Inr (Str ''0xabc'')"
proof -
  have obj: "truthy pendingTransaction \<and> typeof pendingTransaction = ''object''"
    by (simp add: pendingTransaction_def)
  have obj': "truthy minedTransaction \<and> typeof minedTransaction = ''object''"
    by (simp add: minedTransaction_def)
  have n: "\<not> (truthy Null \<and> typeof Null = ''object'')"
    and s: "\<not> (truthy (Str ''0xabc'') \<and> typeof (Str ''0xabc'') = ''object'')"
    by simp_all
  have r: "\<not> isl (transformTransaction pendingTransaction)"
    by (simp add: transformTransaction_pending)
  have r': "\<not> isl (transformTransaction minedTransaction)"
    by (simp add: transformTransaction_mined)
  show ?thesis
    using obj obj' n s r r' transformTransaction_pending transformTransactionG_pending
      transformTransaction_mined
      transformTransaction_policy [of pendingTransaction]
      transformTransaction_policy [of minedTransaction]
      transformTransaction_policy [of Null]
      transformTransaction_policy [of "Str ''0xabc''"]
    by (simp only: simp_thms)
qed

section \<open>The block rule\<close>

text \<open>
  C2. In \<open>src/utils.ts\<close> the rule for \<open>eth_getBlockByNumber\<close> and \<open>eth_getBlockByHash\<close>
  converts \<open>number\<close>, \<open>gasLimit\<close>, \<open>gasUsed\<close> and \<open>timestamp\<close> whether they are there
  or not, and calls \<open>result.transactions.map\<close>: a block object with no \<open>transactions\<close>
  raises a TypeError, and a block with only \<open>transactions\<close> gains four fields of \<open>0\<close>.
  On the same block without \<open>transactions\<close> the guarded revision returns the object
  as it is.
\<close>

theorem block_rule_raises_without_transactions:
  "transformResponse ''eth_getBlockByHash''
      (Obj (fmap_of_list [(''hash'', Str ''0x123''), (''parentHash'', Str ''0x456'')])) =
     Inl TypeError
   \<and> transformResponse ''eth_getBlockByNumber'' (Obj (fmap_of_list [(''transactions'', Arr [])])) =
     Inr (Obj (fmap_of_list
       [(''transactions'', Arr []), (''number'', Num (Fin 0)), (''gasLimit'', Num (Fin 0)),
        (''gasUsed'', Num (Fin 0)), (''timestamp'', Num (Fin 0))]))
   \<and> transformResponseG ''eth_getBlockByHash''
      (Obj (fmap_of_list [(''hash'', Str ''0x123''), (''parentHash'', Str ''0x456'')])) =
     Inr (Obj (fmap_of_list [(''hash'', Str ''0x123''), (''parentHash'', Str ''0x456'')]))"
  by code_simp

text \<open>
  The guarded revision does what C2 says: for a block method and an object result its
  output follows \<open>blockPolicy\<close>; it returns when there is no \<open>transactions\<close> field and
  the four number fields are strings or absent; a result that is not an object passes
  through.
\<close>

lemma transformResponse_block_steps:
  "transformResponse ''eth_getBlockByNumber'' exampleBlock =
     Inr (Obj
             (fmupd ''transactions'' (Arr [])
             (fmupd ''timestamp'' (Num (Fin 1621953888))
             (fmupd ''gasUsed'' (Num (Fin 4096))
             (fmupd ''gasLimit'' (Num (Fin 4660))
             (fmupd ''number'' (Num (Fin 10))
             (fmap_of_list
     [(''number'', Str ''0xa''), (''gasLimit'', Str ''0x1234''), (''gasUsed'', Str ''0x1000''),
      (''timestamp'', Str ''0x60ad0d60''), (''transactions'', Arr [])])))))))"
  by (simp add: transformResponse_def exampleBlock_def hexToDecimal_Str
      parseInt16_a parseInt16_1234 parseInt16_1000 parseInt16_60ad0d60 spread_def)

lemma transformResponseG_block_steps:
  "transformResponseG ''eth_getBlockByNumber'' exampleBlock =
     Inr (Obj
             (fmupd ''transactions'' (Arr [])
             (fmupd ''timestamp'' (Num (Fin 1621953888))
             (fmupd ''gasUsed'' (Num (Fin 4096))
             (fmupd ''gasLimit'' (Num (Fin 4660))
             (fmupd ''number'' (Num (Fin 10))
             (fmap_of_list
     [(''number'', Str ''0xa''), (''gasLimit'', Str ''0x1234''), (''gasUsed'', Str ''0x1000''),
      (''timestamp'', Str ''0x60ad0d60''), (''transactions'', Arr [])])))))))"
  by (simp add: transformResponseG_def exampleBlock_def convertedField_def hexToDecimalG_Str
      parseInt16_a parseInt16_1234 parseInt16_1000 parseInt16_60ad0d60 spread_def andAlso_def)

lemma block_object:
  "fmupd ''transactions'' (Arr [])
             (fmupd ''timestamp'' (Num (Fin 1621953888))
             (fmupd ''gasUsed'' (Num (Fin 4096))
             (fmupd ''gasLimit'' (Num (Fin 4660))
             (fmupd ''number'' (Num (Fin 10))
             (fmap_of_list
     [(''number'', Str ''0xa''), (''gasLimit'', Str ''0x1234''), (''gasUsed'', Str ''0x1000''),
      (''timestamp'', Str ''0x60ad0d60''), (''transactions'', Arr [])]))))) =
   fmap_of_list
     [(''number'', Num (Fin 10)), (''gasLimit'', Num (Fin 4660)), (''gasUsed'', Num (Fin 4096)),
      (''timestamp'', Num (Fin 1621953888)), (''transactions'', Arr [])]"
  by code_simp

text \<open>
  On the block of the specification's example both texts give the decimal block.
\<close>

lemma block_example:
  "transformResponse ''eth_getBlockByNumber'' exampleBlock =
     Inr (Obj (fmap_of_list
       [(''number'', Num (Fin 10)), (''gasLimit'', Num (Fin 4660)), (''gasUsed'', Num (Fin 4096)),
        (''timestamp'', Num (Fin 1621953888)), (''transactions'', Arr [])]))
   \<and> transformResponseG ''eth_getBlockByNumber'' exampleBlock =
     Inr (Obj (fmap_of_list
       [(''number'', Num (Fin 10)), (''gasLimit'', Num (Fin 4660)), (''gasUsed'', Num (Fin 4096)),
        (''timestamp'', Num (Fin 1621953888)), (''transactions'', Arr [])]))"
  by (simp only: transformResponse_block_steps transformResponseG_block_steps block_object simp_thms)

lemma transactions_spread:
  assumes "andAlso t
     (andThen (case t of
                 Arr txs \<Rightarrow> andThen (traverse f txs) (\<lambda>ys. Inr (Arr ys))
               | other \<Rightarrow> Inr other) (\<lambda>ts.
      Inr (Obj (fmap_of_list [(''transactions'', ts)])))) = Inr g"
  shows "(\<forall>txs. t = Arr txs \<longrightarrow>
            (\<exists>ys. traverse f txs = Inr ys
                 \<and> ownProperties g = fmupd ''transactions'' (Arr ys) fmempty))
       \<and> ((\<forall>txs. t \<noteq> Arr txs) \<longrightarrow> truthy t \<longrightarrow>
            ownProperties g = fmupd ''transactions'' t fmempty)
       \<and> (\<not> truthy t \<longrightarrow> ownProperties g = fmempty)"
  using assms
  by (cases t) (auto simp: andAlso_def andThen_eq_Inr ownProperties_falsy split: if_splits)

lemma transformResponseG_block_Inr:
  assumes "method = ''eth_getBlockByNumber'' \<or> method = ''eth_getBlockByHash''"
    and "truthy result" "typeof result = ''object''"
    and "transformResponseG method result = Inr out"
  obtains number gasLimit gasUsed timestamp transactions
  where "convertedField result ''number'' = Inr number"
    and "convertedField result ''gasLimit'' = Inr gasLimit"
    and "convertedField result ''gasUsed'' = Inr gasUsed"
    and "convertedField result ''timestamp'' = Inr timestamp"
    and "andAlso (get result ''transactions'')
           (andThen (case get result ''transactions'' of
                       Arr txs \<Rightarrow>
                         andThen (traverse (\<lambda>tx. if typeof tx = ''object''
                                                 then transformTransactionG tx
                                                 else Inr tx) txs) (\<lambda>ys. Inr (Arr ys))
                     | other \<Rightarrow> Inr other) (\<lambda>ts.
            Inr (Obj (fmap_of_list [(''transactions'', ts)])))) = Inr transactions"
    and "out = Obj
             (spread transactions
             (spread timestamp
             (spread gasUsed
             (spread gasLimit
             (spread number
             (spread result fmempty))))))"
proof -
  from assms have "andThen (convertedField result ''number'') (\<lambda>number.
           andThen (convertedField result ''gasLimit'') (\<lambda>gasLimit.
           andThen (convertedField result ''gasUsed'') (\<lambda>gasUsed.
           andThen (convertedField result ''timestamp'') (\<lambda>timestamp.
           andThen (andAlso (get result ''transactions'')
                      (andThen (case get result ''transactions'' of
                                  Arr txs \<Rightarrow>
                                    andThen (traverse (\<lambda>tx. if typeof tx = ''object''
                                                            then transformTransactionG tx
                                                            else Inr tx) txs) (\<lambda>ys. Inr (Arr ys))
                                | other \<Rightarrow> Inr other) (\<lambda>ts.
                       Inr (Obj (fmap_of_list [(''transactions'', ts)]))))) (\<lambda>transactions.
           Inr (Obj
             (spread transactions
             (spread timestamp
             (spread gasUsed
             (spread gasLimit
             (spread number
             (spread result fmempty)))))))))))) = Inr out"
    unfolding transformResponseG_def by (auto simp del: andThen_Inr andThen_Inl)
  then show thesis
    by (elim andThenE) (rule that, assumption+, blast)
qed

lemma transactions_spread_value:
  assumes "andAlso t
     (andThen (case t of
                 Arr txs \<Rightarrow> andThen (traverse f txs) (\<lambda>ys. Inr (Arr ys))
               | other \<Rightarrow> Inr other) (\<lambda>ts.
      Inr (Obj (fmap_of_list [(''transactions'', ts)])))) = Inr g"
  obtains tv where "ownProperties g =
        (if truthy t then fmupd ''transactions'' tv fmempty else fmempty)"
    and "\<And>txs. t = Arr txs \<Longrightarrow> \<exists>ys. traverse f txs = Inr ys \<and> tv = Arr ys"
    and "(\<forall>txs. t \<noteq> Arr txs) \<Longrightarrow> truthy t \<Longrightarrow> tv = t"
proof (cases "truthy t")
  case False
  with transactions_spread [OF assms] that [of Undefined] show thesis
    by (cases t) auto
next
  case True
  show thesis
  proof (cases "\<exists>txs. t = Arr txs")
    case True
    then obtain txs where t: "t = Arr txs" by blast
    with transactions_spread [OF assms] obtain ys where "traverse f txs = Inr ys"
      "ownProperties g = fmupd ''transactions'' (Arr ys) fmempty" by blast
    with t that [of "Arr ys"] show thesis by simp
  next
    case False
    with \<open>truthy t\<close> transactions_spread [OF assms]
    have "ownProperties g = fmupd ''transactions'' t fmempty" by blast
    with False \<open>truthy t\<close> that [of t] show thesis by simp
  qed
qed

lemma transformResponseG_block_policy:
  assumes m: "method = ''eth_getBlockByNumber'' \<or> method = ''eth_getBlockByHash''"
    and obj: "truthy result" "typeof result = ''object''"
    and out: "transformResponseG method result = Inr out"
  shows "blockPolicy result out"
proof -
  from m obj out obtain number gasLimit gasUsed timestamp transactions
  where nu: "convertedField result ''number'' = Inr number"
    and gl: "convertedField result ''gasLimit'' = Inr gasLimit"
    and gu: "convertedField result ''gasUsed'' = Inr gasUsed"
    and ts: "convertedField result ''timestamp'' = Inr timestamp"
    and tr: "andAlso (get result ''transactions'')
           (andThen (case get result ''transactions'' of
                       Arr txs \<Rightarrow>
                         andThen (traverse (\<lambda>tx. if typeof tx = ''object''
                                                 then transformTransactionG tx
                                                 else Inr tx) txs) (\<lambda>ys. Inr (Arr ys))
                     | other \<Rightarrow> Inr other) (\<lambda>ts.
            Inr (Obj (fmap_of_list [(''transactions'', ts)])))) = Inr transactions"
    and o: "out = Obj
             (spread transactions
             (spread timestamp
             (spread gasUsed
             (spread gasLimit
             (spread number
             (spread result fmempty))))))"
    by (rule transformResponseG_block_Inr)
  let ?f = "\<lambda>tx. if typeof tx = ''object'' then transformTransactionG tx else Inr tx"
  let ?t = "get result ''transactions''"
  from guarded_spread [of "get result ''number''" hexToDecimalG "''number''" number,
      OF nu [unfolded convertedField_def]]
  obtain n1 where G1: "ownProperties number =
        (if truthy (get result ''number'') then fmupd ''number'' (Num n1) fmempty else fmempty)"
      and H1: "truthy (get result ''number'') \<Longrightarrow> hexToDecimalG (get result ''number'') = Inr n1"
    by (cases "truthy (get result ''number'')") auto
  from guarded_spread [of "get result ''gasLimit''" hexToDecimalG "''gasLimit''" gasLimit,
      OF gl [unfolded convertedField_def]]
  obtain n2 where G2: "ownProperties gasLimit =
        (if truthy (get result ''gasLimit'') then fmupd ''gasLimit'' (Num n2) fmempty else fmempty)"
      and H2: "truthy (get result ''gasLimit'') \<Longrightarrow> hexToDecimalG (get result ''gasLimit'') = Inr n2"
    by (cases "truthy (get result ''gasLimit'')") auto
  from guarded_spread [of "get result ''gasUsed''" hexToDecimalG "''gasUsed''" gasUsed,
      OF gu [unfolded convertedField_def]]
  obtain n3 where G3: "ownProperties gasUsed =
        (if truthy (get result ''gasUsed'') then fmupd ''gasUsed'' (Num n3) fmempty else fmempty)"
      and H3: "truthy (get result ''gasUsed'') \<Longrightarrow> hexToDecimalG (get result ''gasUsed'') = Inr n3"
    by (cases "truthy (get result ''gasUsed'')") auto
  from guarded_spread [of "get result ''timestamp''" hexToDecimalG "''timestamp''" timestamp,
      OF ts [unfolded convertedField_def]]
  obtain n4 where G4: "ownProperties timestamp =
        (if truthy (get result ''timestamp'') then fmupd ''timestamp'' (Num n4) fmempty else fmempty)"
      and H4: "truthy (get result ''timestamp'') \<Longrightarrow> hexToDecimalG (get result ''timestamp'') = Inr n4"
    by (cases "truthy (get result ''timestamp'')") auto
  from transactions_spread_value [of ?t ?f transactions, OF tr]
  obtain tv where G5: "ownProperties transactions =
        (if truthy ?t then fmupd ''transactions'' tv fmempty else fmempty)"
    and A5: "\<And>txs. ?t = Arr txs \<Longrightarrow> \<exists>ys. traverse ?f txs = Inr ys \<and> tv = Arr ys"
    and B5: "(\<forall>txs. ?t \<noteq> Arr txs) \<Longrightarrow> truthy ?t \<Longrightarrow> tv = ?t"
    by blast
  have L: "fmlookup (ownProperties out) k =
     (if k = ''transactions'' \<and> truthy ?t then Some tv
      else if k = ''timestamp'' \<and> truthy (get result ''timestamp'') then Some (Num n4)
      else if k = ''gasUsed'' \<and> truthy (get result ''gasUsed'') then Some (Num n3)
      else if k = ''gasLimit'' \<and> truthy (get result ''gasLimit'') then Some (Num n2)
      else if k = ''number'' \<and> truthy (get result ''number'') then Some (Num n1)
      else fmlookup (ownProperties result) k)" for k
    by (simp add: o spread_def G1 G2 G3 G4 G5)
  have O: "get out k = (case fmlookup (ownProperties out) k of Some x \<Rightarrow> x | None \<Rightarrow> Undefined)" for k
    by (simp add: o)
  have Ltr: "fmlookup (ownProperties out) ''transactions'' =
              (if truthy ?t then Some tv else fmlookup (ownProperties result) ''transactions'')"
    and Lts: "fmlookup (ownProperties out) ''timestamp'' =
              (if truthy (get result ''timestamp'') then Some (Num n4)
               else fmlookup (ownProperties result) ''timestamp'')"
    and Lgu: "fmlookup (ownProperties out) ''gasUsed'' =
              (if truthy (get result ''gasUsed'') then Some (Num n3)
               else fmlookup (ownProperties result) ''gasUsed'')"
    and Lgl: "fmlookup (ownProperties out) ''gasLimit'' =
              (if truthy (get result ''gasLimit'') then Some (Num n2)
               else fmlookup (ownProperties result) ''gasLimit'')"
    and Lnu: "fmlookup (ownProperties out) ''number'' =
              (if truthy (get result ''number'') then Some (Num n1)
               else fmlookup (ownProperties result) ''number'')"
    by (simp_all add: L)
  have conv: "(truthy (get result k) \<longrightarrow>
               numberResult (hexToDecimalG (get result k)) = Inr (get out k))
         \<and> (\<not> truthy (get result k) \<longrightarrow>
              fmlookup (ownProperties out) k = fmlookup (ownProperties result) k)"
    if "k \<in> {''number'', ''gasLimit'', ''gasUsed'', ''timestamp''}" for k
  proof -
    from that consider "k = ''number''" | "k = ''gasLimit''" | "k = ''gasUsed''"
      | "k = ''timestamp''" by blast
    then show ?thesis
    proof cases
      case 1
      show ?thesis
      proof (cases "truthy (get result ''number'')")
        case True
        with 1 H1 show ?thesis
          by (simp only: O Lnu if_True option.case numberResult_def andThen_Inr simp_thms)
      next
        case False
        with 1 show ?thesis by (simp only: Lnu if_False simp_thms)
      qed
    next
      case 2
      show ?thesis
      proof (cases "truthy (get result ''gasLimit'')")
        case True
        with 2 H2 show ?thesis
          by (simp only: O Lgl if_True option.case numberResult_def andThen_Inr simp_thms)
      next
        case False
        with 2 show ?thesis by (simp only: Lgl if_False simp_thms)
      qed
    next
      case 3
      show ?thesis
      proof (cases "truthy (get result ''gasUsed'')")
        case True
        with 3 H3 show ?thesis
          by (simp only: O Lgu if_True option.case numberResult_def andThen_Inr simp_thms)
      next
        case False
        with 3 show ?thesis by (simp only: Lgu if_False simp_thms)
      qed
    next
      case 4
      show ?thesis
      proof (cases "truthy (get result ''timestamp'')")
        case True
        with 4 H4 show ?thesis
          by (simp only: O Lts if_True option.case numberResult_def andThen_Inr simp_thms)
      next
        case False
        with 4 show ?thesis by (simp only: Lts if_False simp_thms)
      qed
    qed
  qed
  have arr: "\<exists>ys. traverse ?f txs = Inr ys \<and> get out ''transactions'' = Arr ys"
    if "?t = Arr txs" for txs
  proof -
    from A5 [OF that] obtain ys where "traverse ?f txs = Inr ys" "tv = Arr ys" by blast
    moreover have "truthy ?t" using that by simp
    ultimately show ?thesis by (simp add: O Ltr)
  qed
  have notarr: "fmlookup (ownProperties out) ''transactions'' =
           fmlookup (ownProperties result) ''transactions''"
    if "\<forall>txs. ?t \<noteq> Arr txs"
  proof (cases "truthy ?t")
    case True
    with B5 [OF that] have "tv = ?t" by simp
    moreover from True have "?t \<noteq> Undefined" by auto
    ultimately show ?thesis using True get_lookup [of result "''transactions''"]
      by (simp add: Ltr)
  next
    case False
    then show ?thesis by (simp add: Ltr)
  qed
  have other: "fmlookup (ownProperties out) k = fmlookup (ownProperties result) k"
    if "k \<notin> {''number'', ''gasLimit'', ''gasUsed'', ''timestamp'', ''transactions''}" for k
    using that by (simp add: L)
  show ?thesis
    unfolding blockPolicy_def
    using conv arr notarr other by blast
qed

lemma convertedField_string:
  "get result k = Str s \<Longrightarrow> \<exists>g. convertedField result k = Inr g"
  by (simp add: convertedField_def andAlso_def hexToDecimalG_def toStringMethod_def Let_def)

lemma convertedField_absent:
  "\<not> truthy (get result k) \<Longrightarrow> convertedField result k = Inr (get result k)"
  by (simp add: convertedField_def andAlso_def)

text \<open>No \<open>transactions\<close> field, and number fields that are strings or absent: no error.\<close>

lemma transformResponseG_block_returns:
  assumes m: "method = ''eth_getBlockByNumber'' \<or> method = ''eth_getBlockByHash''"
    and obj: "truthy result" "typeof result = ''object''"
    and f: "\<And>k. k \<in> {''number'', ''gasLimit'', ''gasUsed'', ''timestamp''} \<Longrightarrow>
              \<not> truthy (get result k) \<or> (\<exists>s. get result k = Str s)"
    and t: "get result ''transactions'' = Undefined"
  shows "\<exists>out. transformResponseG method result = Inr out"
proof -
  have c: "\<exists>g. convertedField result k = Inr g"
    if "k \<in> {''number'', ''gasLimit'', ''gasUsed'', ''timestamp''}" for k
    using f [OF that] convertedField_string [of result k] convertedField_absent [of result k]
    by blast
  from c [of "''number''"] obtain number where nu: "convertedField result ''number'' = Inr number"
    by auto
  from c [of "''gasLimit''"] obtain gasLimit where gl: "convertedField result ''gasLimit'' = Inr gasLimit"
    by auto
  from c [of "''gasUsed''"] obtain gasUsed where gu: "convertedField result ''gasUsed'' = Inr gasUsed"
    by auto
  from c [of "''timestamp''"] obtain timestamp where ts: "convertedField result ''timestamp'' = Inr timestamp"
    by auto
  have e: "method \<noteq> ''eth_blockNumber''" "method \<noteq> ''eth_gasPrice''" "method \<noteq> ''eth_estimateGas''"
    "method \<noteq> ''eth_getBalance''" using m by auto
  show ?thesis
    unfolding transformResponseG_def
    using obj m by (simp add: e nu gl gu ts t andAlso_def)
qed

lemma transformResponseG_block_non_object:
  assumes "method = ''eth_getBlockByNumber'' \<or> method = ''eth_getBlockByHash''"
    and "typeof result \<noteq> ''object''"
  shows "transformResponseG method result = Inr result"
  using assms by (auto simp: transformResponseG_def)

section \<open>Validation and the request\<close>

text \<open>
  C6. For \<open>eth_getBalance\<close>, \<open>request\<close> fails with a ValidationCloudError of code
  \<open>INVALID_PARAMS\<close> and posts nothing, whatever the transport: with the
  missing-parameter message when \<open>params\<close> is absent or its length is not 2, with the
  address-parameter message when it has two elements and the first is not a string
  beginning with \<open>0x\<close>. When it has two elements and the first is a string beginning
  with \<open>0x\<close>, validation raises nothing.
\<close>

theorem getBalance_validation:
  "((params = None \<or> (\<exists>ps. params = Some ps \<and> length ps \<noteq> 2))
      \<longrightarrow> request post this ''eth_getBalance'' params =
            (Inl (ValidationCloudError
                    (Text ''eth_getBalance requires address and block parameters'')
                    (Some INVALID_PARAMS) Undefined), this))
   \<and> ((\<exists>a b. params = Some [a, b] \<and> \<not> (\<exists>s. a = Str s \<and> take 2 s = ''0x''))
      \<longrightarrow> request post this ''eth_getBalance'' params =
            (Inl (ValidationCloudError (Text ''Invalid address parameter'')
                    (Some INVALID_PARAMS) Undefined), this))
   \<and> ((\<exists>s b. params = Some [Str s, b] \<and> take 2 s = ''0x'')
      \<longrightarrow> validateParams ''eth_getBalance'' params = Inr ()
        \<and> posted (snd (request post this ''eth_getBalance'' params)) \<noteq> posted this)"
proof (intro conjI impI)
  assume "params = None \<or> (\<exists>ps. params = Some ps \<and> length ps \<noteq> 2)"
  then show "request post this ''eth_getBalance'' params =
      (Inl (ValidationCloudError
              (Text ''eth_getBalance requires address and block parameters'')
              (Some INVALID_PARAMS) Undefined), this)"
    by (auto simp: request_def validateParams_def catchBlock_def)
next
  assume "\<exists>a b. params = Some [a, b] \<and> \<not> (\<exists>s. a = Str s \<and> take 2 s = ''0x'')"
  then obtain a b where p: "params = Some [a, b]"
    and a: "\<not> (\<exists>s. a = Str s \<and> take 2 s = ''0x'')" by blast
  from a have "typeof a \<noteq> ''string''
      \<or> \<not> (case a of Str s \<Rightarrow> startsWith s ''0x'' | _ \<Rightarrow> False)"
    by (cases a) (simp_all add: startsWith_def numeral_2_eq_2)
  then show "request post this ''eth_getBalance'' params =
      (Inl (ValidationCloudError (Text ''Invalid address parameter'')
              (Some INVALID_PARAMS) Undefined), this)"
    using p by (auto simp: request_def validateParams_def catchBlock_def)
next
  assume "\<exists>s b. params = Some [Str s, b] \<and> take 2 s = ''0x''"
  then obtain s b where p: "params = Some [Str s, b]" and s: "take 2 s = ''0x''" by blast
  then show "validateParams ''eth_getBalance'' params = Inr ()"
    by (simp add: validateParams_def startsWith_def numeral_2_eq_2)
  then show "posted (snd (request post this ''eth_getBalance'' params)) \<noteq> posted this"
    by (simp add: request_def Let_def split: sum.splits)
qed

theorem getBalance_validation_witness:
  "request (\<lambda>body. Inr Null) \<lparr>messageId = 1, posted = []\<rparr> ''eth_getBalance''
       (Some [Str ''0x742d35Cc6634C0532925a3b844Bc454e4438f44e'']) =
     (Inl (ValidationCloudError
             (Text ''eth_getBalance requires address and block parameters'')
             (Some INVALID_PARAMS) Undefined), \<lparr>messageId = 1, posted = []\<rparr>)
   \<and> request (\<lambda>body. Inr Null) \<lparr>messageId = 1, posted = []\<rparr> ''eth_getBalance''
       (Some [Str ''invalid-address'', Str ''latest'']) =
     (Inl (ValidationCloudError (Text ''Invalid address parameter'')
             (Some INVALID_PARAMS) Undefined), \<lparr>messageId = 1, posted = []\<rparr>)
   \<and> validateParams ''eth_getBalance''
       (Some [Str ''0x742d35Cc6634C0532925a3b844Bc454e4438f44e'', Str ''latest'']) = Inr ()"
  using getBalance_validation [of "Some [Str ''0x742d35Cc6634C0532925a3b844Bc454e4438f44e'']"
          "\<lambda>body. Inr Null" "\<lparr>messageId = 1, posted = []\<rparr>"]
    getBalance_validation [of "Some [Str ''invalid-address'', Str ''latest'']"
          "\<lambda>body. Inr Null" "\<lparr>messageId = 1, posted = []\<rparr>"]
    getBalance_validation [of "Some [Str ''0x742d35Cc6634C0532925a3b844Bc454e4438f44e'', Str ''latest'']"
          "\<lambda>body. Inr Null" "\<lparr>messageId = 1, posted = []\<rparr>"]
  by simp

text \<open>
  C7. For \<open>eth_getLogs\<close> the check is \<open>typeof params[0] !== 'object'\<close>, and \<open>typeof\<close> is
  \<open>'object'\<close> for \<open>null\<close> and for an array: a single string is rejected and nothing is
  posted, but a single \<open>null\<close> and a single array pass validation and are posted.
\<close>

theorem getLogs_accepts_null_and_array:
  "request post this ''eth_getLogs'' (Some [Str ''invalid-filter'']) =
     (Inl (ValidationCloudError (Text ''eth_getLogs requires a filter object parameter'')
             (Some INVALID_PARAMS) Undefined), this)
   \<and> validateParams ''eth_getLogs'' (Some [Null]) = Inr ()
   \<and> validateParams ''eth_getLogs'' (Some [Arr []]) = Inr ()
   \<and> posted (snd (request post this ''eth_getLogs'' (Some [Null]))) =
       posted this @ [Obj (fmap_of_list
          [(''jsonrpc'', Str ''2.0''), (''id'', Num (Fin (of_int (messageId this)))),
           (''method'', Str ''eth_getLogs''), (''params'', Arr [Null])])]"
  by (simp add: request_def validateParams_def catchBlock_def Let_def split: sum.splits)

theorem getLogs_accepts_null_and_array_witness:
  "validateParams ''eth_getLogs'' (Some [Null]) = Inr ()"
  using getLogs_accepts_null_and_array [of "\<lambda>body. Inr Null" "\<lparr>messageId = 1, posted = []\<rparr>"]
  by (elim conjE)

text \<open>
  C10. When the transport resolves with a body that is an object without a \<open>result\<close>
  (a JSON-RPC error response), \<open>request\<close> returns that body as it is, its \<open>error\<close>
  included: \<open>transformResponse\<close> is not applied and nothing is raised.
\<close>

theorem request_returns_error_body:
  assumes "validateParams method params = Inr ()"
    and "\<And>body. post body = Inr (Obj m)"
    and "fmlookup m ''result'' = None"
    and "fmlookup m ''error'' = Some err"
  shows "fst (request post this method params) = Inr (Obj m)
       \<and> get (Obj m) ''error'' = err"
  using assms
  by (simp add: request_def normalise_def get_def Let_def)

theorem request_returns_error_body_witness:
  "validateParams ''eth_call'' None = Inr ()
   \<and> fst (request
        (\<lambda>body. Inr (Obj (fmap_of_list
           [(''jsonrpc'', Str ''2.0''), (''id'', Num (Fin 1)),
            (''error'', Obj (fmap_of_list
               [(''code'', Num (Fin (- 32000))), (''message'', Str ''execution reverted'')]))])))
        \<lparr>messageId = 1, posted = []\<rparr> ''eth_call'' None) =
      Inr (Obj (fmap_of_list
           [(''jsonrpc'', Str ''2.0''), (''id'', Num (Fin 1)),
            (''error'', Obj (fmap_of_list
               [(''code'', Num (Fin (- 32000))), (''message'', Str ''execution reverted'')]))]))"
proof -
  let ?err = "Obj (fmap_of_list
     [(''code'', Num (Fin (- 32000))), (''message'', Str ''execution reverted'')])"
  let ?m = "fmap_of_list [(''jsonrpc'', Str ''2.0''), (''id'', Num (Fin 1)), (''error'', ?err)]"
  have v: "validateParams ''eth_call'' None = Inr ()"
    by (simp add: validateParams_def)
  have r: "fmlookup ?m ''result'' = None" by simp
  have e: "fmlookup ?m ''error'' = Some ?err" by simp
  show ?thesis
    using v request_returns_error_body [of "''eth_call''" None "\<lambda>body. Inr (Obj ?m)" ?m ?err
        "\<lparr>messageId = 1, posted = []\<rparr>", OF v _ r e]
    by simp
qed

end
